theory Spec2Isabelle
  imports Complex_Main
begin

section \<open>JavaScript values used by the parsers\<close>

text \<open>
  Strings are lists of 8-bit code units (the Latin-1 range of a JavaScript string).
  Numbers are IEEE 754 doubles with their rounded arithmetic. The time value of a
  \<open>Date\<close> is an integer, or \<open>None\<close> for the invalid date, whose getters give \<open>NaN\<close>.
\<close>

subsection \<open>Strings\<close>

definition lowerChar :: "char \<Rightarrow> char" where
  "lowerChar c =
     (let n = (of_char c :: nat)
      in if (65 \<le> n \<and> n \<le> 90) \<or> (192 \<le> n \<and> n \<le> 222 \<and> n \<noteq> 215)
         then char_of (n + 32) else c)"

definition toLowerCase :: "string \<Rightarrow> string" where
  "toLowerCase s = map lowerChar s"

definition isWhiteSpace :: "char \<Rightarrow> bool" where
  "isWhiteSpace c = ((of_char c :: nat) \<in> {9, 10, 11, 12, 13, 32, 160})"

definition trim :: "string \<Rightarrow> string" where
  "trim s = rev (dropWhile isWhiteSpace (rev (dropWhile isWhiteSpace s)))"

fun startsWith :: "string \<Rightarrow> string \<Rightarrow> bool" where
  "startsWith s [] = True"
| "startsWith [] (c # t) = False"
| "startsWith (d # s) (c # t) = (d = c \<and> startsWith s t)"

text \<open>\<open>s.includes(t)\<close>: \<open>t\<close> occurs in \<open>s\<close> as a contiguous run.\<close>

fun includesStr :: "string \<Rightarrow> string \<Rightarrow> bool" where
  "includesStr [] t = (t = [])"
| "includesStr (c # s) t = (startsWith (c # s) t \<or> includesStr s t)"

definition digitChar :: "nat \<Rightarrow> char" where
  "digitChar n = ''0123456789'' ! n"

text \<open>\<open>String(n)\<close> for a non-negative integer \<open>n\<close>: its decimal digits.\<close>

fun showNat :: "nat \<Rightarrow> string" where
  "showNat n = (if n < 10 then [digitChar n] else showNat (n div 10) @ [digitChar (n mod 10)])"

declare showNat.simps [simp del]

definition showInt :: "int \<Rightarrow> string" where
  "showInt i = (if i < 0 then CHR ''-'' # showNat (nat (- i)) else showNat (nat i))"

definition padStart :: "nat \<Rightarrow> char \<Rightarrow> string \<Rightarrow> string" where
  "padStart n c s = replicate (n - length s) c @ s"

subsection \<open>Objects\<close>

text \<open>
  A plain object is the list of its own properties in \<open>Object.keys\<close> order. Reading an
  absent property gives \<open>undefined\<close> (\<open>None\<close>); assigning keeps the position of a
  property that exists and appends a new one.
\<close>

type_synonym 'v obj = "(string \<times> 'v) list"

definition keys :: "'v obj \<Rightarrow> string list" where
  "keys ob = map fst ob"

definition get_prop :: "'v obj \<Rightarrow> string \<Rightarrow> 'v option" where
  "get_prop ob k = map_of ob k"

primrec set_prop :: "string \<Rightarrow> 'v \<Rightarrow> 'v obj \<Rightarrow> 'v obj" where
  "set_prop k v [] = [(k, v)]"
| "set_prop k v (p # ps) = (if fst p = k then (k, v) # ps else p # set_prop k v ps)"

text \<open>Object spread \<open>{...a, ...b}\<close>: the properties of \<open>a\<close>, then those of \<open>b\<close>, assigned in order.\<close>

definition spread2 :: "'v obj \<Rightarrow> 'v obj \<Rightarrow> 'v obj" where
  "spread2 a b = fold (\<lambda>(k, v). set_prop k v) (a @ b) []"

subsection \<open>Numbers\<close>

text \<open>
  A number is a finite double, given by its value, an infinity or \<open>NaN\<close>. The two zeros
  are one value, \<open>Fin 0\<close>: no operation of the parsers tells them apart.
\<close>

datatype number = Fin rat | PosInf | NegInf | NaN

subsection \<open>Cell values and dates\<close>

text \<open>A \<open>Date\<close> object is its time value in milliseconds; \<open>None\<close> is the invalid date.\<close>

type_synonym date = "int option"

text \<open>
  A plain object inherits the properties of \<open>Object.prototype\<close>, which are functions
  but for \<open>__proto__\<close>, the prototype itself. \<open>Builtin name\<close> is the inherited value of the
  property \<open>name\<close>.
\<close>

definition objectPrototypeNames :: "string list" where
  "objectPrototypeNames =
     [''constructor'', ''__defineGetter__'', ''__defineSetter__'', ''hasOwnProperty'',
      ''__lookupGetter__'', ''__lookupSetter__'', ''isPrototypeOf'', ''propertyIsEnumerable'',
      ''toString'', ''valueOf'', ''__proto__'', ''toLocaleString'']"

datatype cell = Null | Undefined | Str string | Num number | DateV date | Builtin string

type_synonym ExcelRow = "cell obj"
type_synonym VariableMap = "cell obj"
type_synonym FieldMapping = "string obj"
type_synonym FormsData = "VariableMap obj"

text \<open>\<open>row[key]\<close>: the row's own property, or else the inherited one.\<close>

definition cellAt :: "ExcelRow \<Rightarrow> string \<Rightarrow> cell" where
  "cellAt row k =
     (case get_prop row k of
        None \<Rightarrow> (if k \<in> set objectPrototypeNames then Builtin k else Undefined)
      | Some v \<Rightarrow> v)"

text \<open>
  What the parsers take from the JavaScript runtime: the rounding of an exact result to
  a double, printing a number, \<open>parseFloat\<close> (\<open>NaN\<close> where nothing is read), parsing a
  date string, printing a \<open>Date\<close>, the local time of a time value, and printing the
  value of a property of \<open>Object.prototype\<close>.
\<close>

record runtime =
  roundNearest :: "rat \<Rightarrow> number"
  numToString :: "number \<Rightarrow> string"
  parseFloat :: "string \<Rightarrow> number"
  dateParse :: "string \<Rightarrow> date"
  dateToString :: "date \<Rightarrow> string"
  localTime :: "int \<Rightarrow> int"
  builtinToString :: "string \<Rightarrow> string"

subsection \<open>Arithmetic of doubles\<close>

text \<open>
  The result of an operation on finite doubles is the exact result rounded to a double.
  Which double that is, is the runtime's \<open>roundNearest\<close>, but for two facts of IEEE 754:
  an integer of magnitude at most \<open>2\<^sup>5\<^sup>3\<close> is a double, so it is the result; and rounding
  is monotone, so an exact result beyond \<open>2\<^sup>5\<^sup>3\<close> or \<open>-2\<^sup>5\<^sup>3\<close>, which are doubles, does
  not round to a double closer to zero than they are.
\<close>

definition isInteger :: "rat \<Rightarrow> bool" where
  "isInteger x = (x = of_int \<lfloor>x\<rfloor>)"

definition fl :: "runtime \<Rightarrow> rat \<Rightarrow> number" where
  "fl rt x =
     (if isInteger x \<and> \<bar>x\<bar> \<le> 2 ^ 53 then Fin x
      else case roundNearest rt x of
             Fin y \<Rightarrow> (if 2 ^ 53 < x then Fin (max y (2 ^ 53))
                       else if x < - (2 ^ 53) then Fin (min y (- (2 ^ 53)))
                       else Fin y)
           | r \<Rightarrow> r)"

definition signOf :: "number \<Rightarrow> int" where
  "signOf a =
     (case a of Fin x \<Rightarrow> (if 0 < x then 1 else if x < 0 then - 1 else 0)
      | PosInf \<Rightarrow> 1 | NegInf \<Rightarrow> - 1 | NaN \<Rightarrow> 0)"

text \<open>\<open>a + b\<close>\<close>

definition numPlus :: "runtime \<Rightarrow> number \<Rightarrow> number \<Rightarrow> number" where
  "numPlus rt a b =
     (case (a, b) of
        (Fin x, Fin y) \<Rightarrow> fl rt (x + y)
      | (Fin x, _) \<Rightarrow> b
      | (_, Fin y) \<Rightarrow> a
      | _ \<Rightarrow> (if a = b then a else NaN))"

text \<open>\<open>- b\<close>\<close>

definition numNeg :: "number \<Rightarrow> number" where
  "numNeg b = (case b of Fin y \<Rightarrow> Fin (- y) | PosInf \<Rightarrow> NegInf | NegInf \<Rightarrow> PosInf | NaN \<Rightarrow> NaN)"

text \<open>\<open>a - b\<close>, which is \<open>a + (- b)\<close> in IEEE 754\<close>

definition numMinus :: "runtime \<Rightarrow> number \<Rightarrow> number \<Rightarrow> number" where
  "numMinus rt a b = numPlus rt a (numNeg b)"

text \<open>\<open>a * b\<close>\<close>

definition numTimes :: "runtime \<Rightarrow> number \<Rightarrow> number \<Rightarrow> number" where
  "numTimes rt a b =
     (case (a, b) of
        (Fin x, Fin y) \<Rightarrow> fl rt (x * y)
      | _ \<Rightarrow> (if a = NaN \<or> b = NaN \<or> signOf a * signOf b = 0 then NaN
              else if 0 < signOf a * signOf b then PosInf else NegInf))"

text \<open>\<open>Math.floor(a)\<close>: the floor of a double is a double.\<close>

definition mathFloor :: "number \<Rightarrow> number" where
  "mathFloor a = (case a of Fin x \<Rightarrow> Fin (of_int \<lfloor>x\<rfloor>) | _ \<Rightarrow> a)"

text \<open>\<open>a < b\<close>\<close>

definition numLess :: "number \<Rightarrow> number \<Rightarrow> bool" where
  "numLess a b =
     (case (a, b) of
        (Fin x, Fin y) \<Rightarrow> x < y
      | (Fin x, PosInf) \<Rightarrow> True
      | (NegInf, Fin y) \<Rightarrow> True
      | (NegInf, PosInf) \<Rightarrow> True
      | _ \<Rightarrow> False)"

text \<open>\<open>String(value)\<close>\<close>

definition toStr :: "runtime \<Rightarrow> cell \<Rightarrow> string" where
  "toStr rt v =
     (case v of Null \<Rightarrow> ''null'' | Undefined \<Rightarrow> ''undefined'' | Str s \<Rightarrow> s
      | Num n \<Rightarrow> numToString rt n | DateV d \<Rightarrow> dateToString rt d
      | Builtin name \<Rightarrow> builtinToString rt name)"

text \<open>Truthiness of a cell, as \<open>||\<close> and \<open>if\<close> test it.\<close>

definition truthy :: "cell \<Rightarrow> bool" where
  "truthy v =
     (case v of Null \<Rightarrow> False | Undefined \<Rightarrow> False | Str s \<Rightarrow> s \<noteq> []
      | Num n \<Rightarrow> n \<noteq> Fin 0 \<and> n \<noteq> NaN | DateV d \<Rightarrow> True | Builtin name \<Rightarrow> True)"

subsection \<open>The calendar of \<open>Date\<close> (ECMAScript, Time Values and Time Range)\<close>

definition msPerDay :: int where
  "msPerDay = 86400000"

text \<open>
  \<open>new Date(v)\<close> for a number \<open>v\<close> (TimeClip): the invalid date unless \<open>v\<close> is finite
  and of magnitude at most \<open>8.64 \<times> 10\<^sup>1\<^sup>5\<close>, and then \<open>v\<close> truncated to an integer.
\<close>

definition newDate :: "number \<Rightarrow> date" where
  "newDate v =
     (case v of
        Fin x \<Rightarrow> (if \<bar>x\<bar> > 8640000000000000 then None
                  else Some (if 0 \<le> x then \<lfloor>x\<rfloor> else \<lceil>x\<rceil>))
      | _ \<Rightarrow> None)"

definition Day :: "int \<Rightarrow> int" where
  "Day t = t div msPerDay"

definition DaysInYear :: "int \<Rightarrow> int" where
  "DaysInYear y =
     (if y mod 4 \<noteq> 0 then 365 else if y mod 100 \<noteq> 0 then 366
      else if y mod 400 \<noteq> 0 then 365 else 366)"

definition DayFromYear :: "int \<Rightarrow> int" where
  "DayFromYear y =
     365 * (y - 1970) + (y - 1969) div 4 - (y - 1901) div 100 + (y - 1601) div 400"

text \<open>
  The largest year whose first day is not after the day of \<open>t\<close>, searched between the
  years that 365-day and 366-day years would give.
\<close>

definition YearFromTime :: "int \<Rightarrow> int" where
  "YearFromTime t =
     (let d = Day t;
          lo = 1970 + min (d div 365) (d div 366) - 1;
          hi = 1970 + max (d div 365) (d div 366) + 1
      in last (filter (\<lambda>y. DayFromYear y \<le> d) [lo..hi]))"

definition InLeapYear :: "int \<Rightarrow> int" where
  "InLeapYear t = (if DaysInYear (YearFromTime t) = 366 then 1 else 0)"

definition DayWithinYear :: "int \<Rightarrow> int" where
  "DayWithinYear t = Day t - DayFromYear (YearFromTime t)"

definition MonthFromTime :: "int \<Rightarrow> int" where
  "MonthFromTime t =
     (let d = DayWithinYear t; l = InLeapYear t
      in if d < 31 then 0 else if d < 59 + l then 1 else if d < 90 + l then 2
         else if d < 120 + l then 3 else if d < 151 + l then 4 else if d < 181 + l then 5
         else if d < 212 + l then 6 else if d < 243 + l then 7 else if d < 273 + l then 8
         else if d < 304 + l then 9 else if d < 334 + l then 10 else 11)"

definition DateFromTime :: "int \<Rightarrow> int" where
  "DateFromTime t =
     (let d = DayWithinYear t; l = InLeapYear t; m = MonthFromTime t
      in if m = 0 then d + 1 else if m = 1 then d - 30 else if m = 2 then d - 58 - l
         else if m = 3 then d - 89 - l else if m = 4 then d - 119 - l
         else if m = 5 then d - 150 - l else if m = 6 then d - 180 - l
         else if m = 7 then d - 211 - l else if m = 8 then d - 242 - l
         else if m = 9 then d - 272 - l else if m = 10 then d - 303 - l else d - 333 - l)"

text \<open>
  What a printed date means: the calendar date of year \<open>y\<close>, month \<open>m\<close> (1 to 12) and
  day \<open>d\<close> of the month is the day \<open>civilDay y m d\<close> after 1 January 1970, counted
  through the days of the years before \<open>y\<close> and of the months before \<open>m\<close>.
\<close>

definition daysInMonth :: "int \<Rightarrow> int \<Rightarrow> int" where
  "daysInMonth y m =
     (if m = 2 then (if DaysInYear y = 366 then 29 else 28)
      else if m = 4 \<or> m = 6 \<or> m = 9 \<or> m = 11 then 30 else 31)"

definition civilDay :: "int \<Rightarrow> int \<Rightarrow> int \<Rightarrow> int" where
  "civilDay y m d = DayFromYear y + sum_list (map (daysInMonth y) [1..m - 1]) + (d - 1)"

text \<open>\<open>String(x)\<close> of a getter's result: \<open>NaN\<close> on the invalid date.\<close>

definition showNum :: "int option \<Rightarrow> string" where
  "showNum x = (case x of None \<Rightarrow> ''NaN'' | Some i \<Rightarrow> showInt i)"

definition getTime :: "date \<Rightarrow> int option" where
  "getTime d = d"

definition getUTCMonth :: "date \<Rightarrow> int option" where
  "getUTCMonth d = map_option MonthFromTime d"

definition getUTCDate :: "date \<Rightarrow> int option" where
  "getUTCDate d = map_option DateFromTime d"

definition getUTCFullYear :: "date \<Rightarrow> int option" where
  "getUTCFullYear d = map_option YearFromTime d"

section \<open>FormParser: the shared helpers\<close>

definition isEmpty :: "cell \<Rightarrow> bool" where
  "isEmpty v = (v = Null \<or> v = Undefined \<or> v = Str '''')"

definition excelDateToString :: "runtime \<Rightarrow> number \<Rightarrow> string" where
  "excelDateToString rt serial =
     (let utc_days = mathFloor (numMinus rt serial (Fin 25569));
          utc_value = numTimes rt utc_days (Fin 86400);
          date_info = newDate (numTimes rt utc_value (Fin 1000));
          mm = padStart 2 CHR ''0'' (showNum (map_option (\<lambda>m. m + 1) (getUTCMonth date_info)));
          dd = padStart 2 CHR ''0'' (showNum (getUTCDate date_info));
          yyyy = showNum (getUTCFullYear date_info)
      in mm @ ''/'' @ dd @ ''/'' @ yyyy)"

definition formatDate :: "runtime \<Rightarrow> cell \<Rightarrow> string" where
  "formatDate rt v =
     (case v of
        Num n \<Rightarrow> excelDateToString rt n
      | DateV d \<Rightarrow>
          (let loc = map_option (localTime rt) d;
               mm = padStart 2 CHR ''0'' (showNum (map_option (\<lambda>m. m + 1) (getUTCMonth loc)));
               dd = padStart 2 CHR ''0'' (showNum (getUTCDate loc));
               yyyy = showNum (getUTCFullYear loc)
           in mm @ ''/'' @ dd @ ''/'' @ yyyy)
      | _ \<Rightarrow> toStr rt v)"

text \<open>
  \<open>parseNumber\<close>: a number is returned as it is; anything else is printed, stripped of
  \<open>$\<close> and \<open>,\<close> and given to \<open>parseFloat\<close>.
\<close>

definition parseNumber :: "runtime \<Rightarrow> cell \<Rightarrow> number \<Rightarrow> number" where
  "parseNumber rt v defaultValue =
     (case v of
        Num n \<Rightarrow> n
      | _ \<Rightarrow> (let parsed = parseFloat rt (filter (\<lambda>c. c \<noteq> CHR ''$'' \<and> c \<noteq> CHR '','') (toStr rt v))
              in if parsed = NaN then defaultValue else parsed))"

section \<open>F8949Parser\<close>

definition MAX_ROWS_PER_FORM :: nat where
  "MAX_ROWS_PER_FORM = 14"

definition ONE_YEAR_MS :: int where
  "ONE_YEAR_MS = 365 * 24 * 60 * 60 * 1000"

text \<open>
  \<open>parseDate\<close>: a \<open>Date\<close> is returned as it is and a number is an Excel serial. Any
  other value goes to \<open>new Date(value)\<close>: \<open>null\<close> gives the epoch, \<open>undefined\<close> the
  invalid date, and a string, or the string of a function or object, is parsed by the
  runtime.
\<close>

definition parseDate :: "runtime \<Rightarrow> cell \<Rightarrow> date" where
  "parseDate rt v =
     (case v of
        DateV d \<Rightarrow> d
      | Num n \<Rightarrow>
          (let utc_days = mathFloor (numMinus rt n (Fin 25569));
               utc_value = numTimes rt utc_days (Fin 86400)
           in newDate (numTimes rt utc_value (Fin 1000)))
      | Null \<Rightarrow> Some 0
      | Undefined \<Rightarrow> None
      | Str s \<Rightarrow> dateParse rt s
      | Builtin name \<Rightarrow> dateParse rt (builtinToString rt name))"

text \<open>
  \<open>sellDate.getTime() - purchaseDate.getTime() < ONE_YEAR_MS\<close>: the difference is \<open>NaN\<close>
  when either date is invalid, and a comparison with \<open>NaN\<close> is false. Two time values
  are integers of magnitude at most \<open>8.64 \<times> 10\<^sup>1\<^sup>5\<close>; their difference is a double when
  its magnitude is at most \<open>2\<^sup>5\<^sup>3\<close>, and is rounded to a double of magnitude at least
  \<open>2\<^sup>5\<^sup>3\<close> otherwise, so the comparison with \<open>ONE_YEAR_MS\<close> is that of the integers.
\<close>

definition isShortTermGain :: "date \<Rightarrow> date \<Rightarrow> bool" where
  "isShortTermGain purchaseDate sellDate =
     (case (getTime sellDate, getTime purchaseDate) of
        (Some s, Some p) \<Rightarrow> s - p < ONE_YEAR_MS
      | _ \<Rightarrow> False)"

record CapitalTransaction =
  quantity :: number
  name :: string
  purchaseDate :: string
  sellDate :: string
  purchasePrice :: number
  sellPrice :: number
  code :: string
  adjustment :: number
  isShortTerm :: bool

definition EXPECTED_HEADERS :: "(string list) obj" where
  "EXPECTED_HEADERS =
     [(''quantity'', [''quantity'', ''qty'', ''shares'', ''units'']),
      (''name'', [''name'', ''description'', ''security'', ''asset'']),
      (''purchaseDate'', [''purchase date'', ''acquired'', ''buy date'', ''date acquired'']),
      (''sellDate'', [''sell date'', ''sold'', ''sale date'', ''date sold'']),
      (''purchasePrice'', [''purchase price'', ''cost basis'', ''basis'', ''cost'']),
      (''sellPrice'', [''sell price'', ''proceeds'', ''sale price'', ''sales proceeds'']),
      (''code'', [''code'', ''code(s)'', ''codes'']),
      (''adjustment'', [''adjustment'', ''amount of adjustment'', ''adj''])]"

definition requiredColumns :: "string list" where
  "requiredColumns =
     [''quantity'', ''name'', ''purchaseDate'', ''sellDate'', ''purchasePrice'', ''sellPrice'']"

definition optionalColumns :: "string list" where
  "optionalColumns = [''code'', ''adjustment'']"

text \<open>
  The first header of the row that contains, or is contained in, one of the expected
  headers of \<open>key\<close>, after lower-casing and trimming.
\<close>

definition findColumn :: "ExcelRow \<Rightarrow> string \<Rightarrow> string option" where
  "findColumn firstRow key =
     (let possibleHeaders = (case get_prop EXPECTED_HEADERS key of None \<Rightarrow> [] | Some hs \<Rightarrow> hs)
      in find (\<lambda>col. let normalized = trim (toLowerCase col)
                      in list_ex (\<lambda>ph. includesStr normalized ph \<or> includesStr ph normalized)
                           possibleHeaders)
           (keys firstRow))"

text \<open>\<open>if (found)\<close> fails on \<open>undefined\<close> and on the empty header.\<close>

fun detectRequired :: "ExcelRow \<Rightarrow> string list \<Rightarrow> string obj \<Rightarrow> string obj option" where
  "detectRequired firstRow [] columnMap = Some columnMap"
| "detectRequired firstRow (key # rest) columnMap =
     (case findColumn firstRow key of
        None \<Rightarrow> None
      | Some found \<Rightarrow>
          (if found \<noteq> [] then detectRequired firstRow rest (set_prop key found columnMap)
           else None))"

fun detectOptional :: "ExcelRow \<Rightarrow> string list \<Rightarrow> string obj \<Rightarrow> string obj" where
  "detectOptional firstRow [] columnMap = columnMap"
| "detectOptional firstRow (key # rest) columnMap =
     (case findColumn firstRow key of
        None \<Rightarrow> detectOptional firstRow rest columnMap
      | Some found \<Rightarrow>
          (if found \<noteq> [] then detectOptional firstRow rest (set_prop key found columnMap)
           else detectOptional firstRow rest columnMap))"

definition detectColumns :: "ExcelRow \<Rightarrow> string obj option" where
  "detectColumns firstRow =
     (case detectRequired firstRow requiredColumns [] of
        None \<Rightarrow> None
      | Some columnMap \<Rightarrow> Some (detectOptional firstRow optionalColumns columnMap))"

text \<open>
  \<open>row[columnMap.key]\<close>: a role that was not detected is \<open>undefined\<close>, which as a property
  name is the string \<open>undefined\<close>.
\<close>

definition column :: "string obj \<Rightarrow> string \<Rightarrow> ExcelRow \<Rightarrow> cell" where
  "column columnMap key row =
     cellAt row (case get_prop columnMap key of None \<Rightarrow> ''undefined'' | Some header \<Rightarrow> header)"

text \<open>\<open>value || fallback\<close>\<close>

definition orElse :: "cell \<Rightarrow> cell \<Rightarrow> cell" where
  "orElse v fallback = (if truthy v then v else fallback)"

text \<open>
  The body of the \<open>try\<close> block. None of its conversions throws on a cell of the kinds
  above, so the \<open>catch\<close> branch has no counterpart here.
\<close>

definition rowTransaction :: "runtime \<Rightarrow> string obj \<Rightarrow> ExcelRow \<Rightarrow> CapitalTransaction" where
  "rowTransaction rt columnMap row =
     (let purchaseDate = parseDate rt (column columnMap ''purchaseDate'' row);
          sellDate = parseDate rt (column columnMap ''sellDate'' row);
          isShortTerm = isShortTermGain purchaseDate sellDate
      in \<lparr> quantity = parseNumber rt (column columnMap ''quantity'' row) (Fin 0),
           name = toStr rt (orElse (column columnMap ''name'' row) (Str [])),
           purchaseDate = formatDate rt (column columnMap ''purchaseDate'' row),
           sellDate = formatDate rt (column columnMap ''sellDate'' row),
           purchasePrice = parseNumber rt (column columnMap ''purchasePrice'' row) (Fin 0),
           sellPrice = parseNumber rt (column columnMap ''sellPrice'' row) (Fin 0),
           code = toStr rt (orElse (column columnMap ''code'' row) (Str [])),
           adjustment =
             parseNumber rt (orElse (column columnMap ''adjustment'' row) (Num (Fin 0))) (Fin 0),
           isShortTerm = isShortTerm \<rparr>)"

text \<open>The \<open>for\<close> loop over the rows; \<open>transactions\<close> is the array being pushed to.\<close>

fun parseRows ::
  "runtime \<Rightarrow> string obj \<Rightarrow> ExcelRow list \<Rightarrow> CapitalTransaction list \<Rightarrow> CapitalTransaction list"
where
  "parseRows rt columnMap [] transactions = transactions"
| "parseRows rt columnMap (row # rows) transactions =
     (if isEmpty (column columnMap ''quantity'' row)
      then parseRows rt columnMap rows transactions
      else parseRows rt columnMap rows (transactions @ [rowTransaction rt columnMap row]))"

datatype error = TypeError

text \<open>On an empty array \<open>rows[0]\<close> is \<open>undefined\<close> and \<open>Object.keys\<close> throws.\<close>

definition parseTransactions :: "runtime \<Rightarrow> ExcelRow list \<Rightarrow> error + CapitalTransaction list" where
  "parseTransactions rt rows =
     (case rows of
        [] \<Rightarrow> Inl TypeError
      | firstRow # _ \<Rightarrow>
          (case detectColumns firstRow of
             None \<Rightarrow> Inr []
           | Some columnMap \<Rightarrow> Inr (parseRows rt columnMap rows [])))"

subsection \<open>The field mapping of form 8949\<close>

definition paddedNum :: "nat \<Rightarrow> string" where
  "paddedNum fieldNum = (if fieldNum < 10 then ''0'' @ showNat fieldNum else showNat fieldNum)"

definition shortTermCell :: "nat \<Rightarrow> nat \<Rightarrow> FieldMapping \<Rightarrow> FieldMapping" where
  "shortTermCell i j mapping =
     (let fieldNum = 8 * i + j + 3
      in set_prop (''st_r'' @ showNat i @ ''_c'' @ showNat j)
           (''topmostSubform[0].Page1[0].Table_Line1_Part1[0].Row'' @ showNat (i + 1)
              @ ''[0].f1_'' @ paddedNum fieldNum @ ''[0]'')
           mapping)"

definition longTermCell :: "nat \<Rightarrow> nat \<Rightarrow> FieldMapping \<Rightarrow> FieldMapping" where
  "longTermCell i j mapping =
     (let fieldNum = 8 * i + j + 3
      in set_prop (''lt_r'' @ showNat i @ ''_c'' @ showNat j)
           (''topmostSubform[0].Page2[0].Table_Line1_Part2[0].Row'' @ showNat (i + 1)
              @ ''[0].f2_'' @ paddedNum fieldNum @ ''[0]'')
           mapping)"

text \<open>The two nested \<open>for\<close> loops run over \<open>i = 0..13\<close> and \<open>j = 0..7\<close>.\<close>

definition generateF8949Mapping :: FieldMapping where
  "generateF8949Mapping =
     (let mapping = [];
          mapping = fold (\<lambda>i. fold (\<lambda>j. shortTermCell i j) [0..<8]) [0..<14] mapping;
          mapping = set_prop ''st_total_proceed'' ''topmostSubform[0].Page1[0].f1_91[0]'' mapping;
          mapping = set_prop ''st_total_cost'' ''topmostSubform[0].Page1[0].f1_92[0]'' mapping;
          mapping = set_prop ''st_total_adj'' ''topmostSubform[0].Page1[0].f1_94[0]'' mapping;
          mapping = set_prop ''st_total_gl'' ''topmostSubform[0].Page1[0].f1_95[0]'' mapping;
          mapping = fold (\<lambda>i. fold (\<lambda>j. longTermCell i j) [0..<8]) [0..<14] mapping;
          mapping = set_prop ''lt_total_proceed'' ''topmostSubform[0].Page2[0].f2_91[0]'' mapping;
          mapping = set_prop ''lt_total_cost'' ''topmostSubform[0].Page2[0].f2_92[0]'' mapping;
          mapping = set_prop ''lt_total_adj'' ''topmostSubform[0].Page2[0].f2_94[0]'' mapping;
          mapping = set_prop ''lt_total_gl'' ''topmostSubform[0].Page2[0].f2_95[0]'' mapping
      in mapping)"

definition f8949_2025 :: FieldMapping where
  "f8949_2025 = generateF8949Mapping"

definition f8949Mappings :: "(int \<times> FieldMapping) list" where
  "f8949Mappings = [(2025, f8949_2025)]"

text \<open>\<open>f8949Mappings[year] || f8949Mappings[2025]\<close>\<close>

definition getF8949Mapping :: "int \<Rightarrow> FieldMapping" where
  "getF8949Mapping taxYear =
     (case map_of f8949Mappings taxYear of Some mapping \<Rightarrow> mapping | None \<Rightarrow> f8949_2025)"

subsection \<open>Chunking\<close>

datatype typePrefix = ST | LT

definition prefixStr :: "typePrefix \<Rightarrow> string" where
  "prefixStr p = (case p of ST \<Rightarrow> ''st'' | LT \<Rightarrow> ''lt'')"

text \<open>The logical key \<open>`${typePrefix}_r${idx}_c${j}`\<close>.\<close>

definition cellKey :: "typePrefix \<Rightarrow> nat \<Rightarrow> nat \<Rightarrow> string" where
  "cellKey p idx j = prefixStr p @ ''_r'' @ showNat idx @ ''_c'' @ showNat j"

text \<open>
  \<open>mapping[key]\<close> used as a property name: a logical key without an entry gives
  \<open>undefined\<close>, which as a property name is the string \<open>undefined\<close>. The keys looked up
  are \<open>cellKey\<close> and the four totals keys; they start with \<open>st_\<close> or \<open>lt_\<close>, which no
  property of \<open>Object.prototype\<close> does.
\<close>

definition mapped :: "FieldMapping \<Rightarrow> string \<Rightarrow> string" where
  "mapped mapping key = (case get_prop mapping key of None \<Rightarrow> ''undefined'' | Some f \<Rightarrow> f)"

record chunkState =
  formData :: VariableMap
  totalProceeds :: number
  totalCost :: number
  totalGainLoss :: number
  totalAdjustment :: number

text \<open>The callback of \<open>chunk.forEach\<close>, for the transaction at position \<open>idx\<close> of the chunk.\<close>

definition addTransaction ::
  "runtime \<Rightarrow> typePrefix \<Rightarrow> FieldMapping \<Rightarrow> nat \<Rightarrow> CapitalTransaction \<Rightarrow> chunkState \<Rightarrow> chunkState"
where
  "addTransaction rt p mapping idx transaction s =
     (let gainLoss =
            numMinus rt (numMinus rt (sellPrice transaction) (purchasePrice transaction))
              (adjustment transaction);
          col0Key = mapped mapping (cellKey p idx 0);
          col0Value = numToString rt (quantity transaction) @ '' sh. '' @ name transaction;
          fd = set_prop col0Key (Str col0Value) (formData s);
          fd = set_prop (mapped mapping (cellKey p idx 1)) (Str (purchaseDate transaction)) fd;
          fd = set_prop (mapped mapping (cellKey p idx 2)) (Str (sellDate transaction)) fd;
          fd = set_prop (mapped mapping (cellKey p idx 3)) (Num (sellPrice transaction)) fd;
          fd = set_prop (mapped mapping (cellKey p idx 4)) (Num (purchasePrice transaction)) fd;
          fd = (if code transaction \<noteq> []
                then set_prop (mapped mapping (cellKey p idx 5)) (Str (code transaction)) fd
                else fd);
          fd = set_prop (mapped mapping (cellKey p idx 6)) (Num (adjustment transaction)) fd;
          fd = set_prop (mapped mapping (cellKey p idx 7)) (Num gainLoss) fd
      in \<lparr> formData = fd,
           totalProceeds = numPlus rt (totalProceeds s) (sellPrice transaction),
           totalCost = numPlus rt (totalCost s) (purchasePrice transaction),
           totalGainLoss = numPlus rt (totalGainLoss s) gainLoss,
           totalAdjustment = numPlus rt (totalAdjustment s) (adjustment transaction) \<rparr>)"

fun chunkForEach ::
  "runtime \<Rightarrow> typePrefix \<Rightarrow> FieldMapping \<Rightarrow> nat \<Rightarrow> CapitalTransaction list \<Rightarrow> chunkState \<Rightarrow> chunkState"
where
  "chunkForEach rt p mapping idx [] s = s"
| "chunkForEach rt p mapping idx (transaction # rest) s =
     chunkForEach rt p mapping (Suc idx) rest (addTransaction rt p mapping idx transaction s)"

text \<open>One pass of the outer loop: the field map of one chunk.\<close>

definition chunkFormData ::
  "runtime \<Rightarrow> typePrefix \<Rightarrow> FieldMapping \<Rightarrow> CapitalTransaction list \<Rightarrow> VariableMap"
where
  "chunkFormData rt p mapping chunk =
     (let s = chunkForEach rt p mapping 0 chunk
                \<lparr> formData = [], totalProceeds = Fin 0, totalCost = Fin 0,
                  totalGainLoss = Fin 0, totalAdjustment = Fin 0 \<rparr>;
          fd = set_prop (mapped mapping (prefixStr p @ ''_total_proceed'')) (Num (totalProceeds s))
                 (formData s);
          fd = set_prop (mapped mapping (prefixStr p @ ''_total_cost'')) (Num (totalCost s)) fd;
          fd = set_prop (mapped mapping (prefixStr p @ ''_total_gl'')) (Num (totalGainLoss s)) fd;
          fd = set_prop (mapped mapping (prefixStr p @ ''_total_adj'')) (Num (totalAdjustment s)) fd
      in fd)"

text \<open>\<open>transactions.slice(i, j)\<close> for \<open>i \<le> j\<close>\<close>

definition slice :: "'a list \<Rightarrow> nat \<Rightarrow> nat \<Rightarrow> 'a list" where
  "slice xs i j = take (j - i) (drop i xs)"

function chunkLoop ::
  "runtime \<Rightarrow> CapitalTransaction list \<Rightarrow> typePrefix \<Rightarrow> FieldMapping \<Rightarrow> nat \<Rightarrow> VariableMap list
     \<Rightarrow> VariableMap list"
where
  "chunkLoop rt transactions p mapping i chunks =
     (if i < length transactions
      then chunkLoop rt transactions p mapping (i + MAX_ROWS_PER_FORM)
             (chunks @ [chunkFormData rt p mapping (slice transactions i (i + MAX_ROWS_PER_FORM))])
      else chunks)"
  by pat_completeness auto
termination
  by (relation "measure (\<lambda>(rt, transactions, p, mapping, i, chunks). length transactions - i)")
     (auto simp: MAX_ROWS_PER_FORM_def)

declare chunkLoop.simps [simp del]

definition chunkTransactions ::
  "runtime \<Rightarrow> CapitalTransaction list \<Rightarrow> typePrefix \<Rightarrow> FieldMapping \<Rightarrow> VariableMap list"
where
  "chunkTransactions rt transactions p mapping = chunkLoop rt transactions p mapping 0 []"

subsection \<open>Combining the short-term and long-term forms\<close>

text \<open>\<open>forms[i] || {}\<close>\<close>

definition formOrEmpty :: "VariableMap list \<Rightarrow> nat \<Rightarrow> VariableMap" where
  "formOrEmpty forms i = (if i < length forms then forms ! i else [])"

definition combineForms :: "VariableMap list \<Rightarrow> VariableMap list \<Rightarrow> FormsData" where
  "combineForms shortTermForms longTermForms =
     (let totalForms = max (length shortTermForms) (length longTermForms)
      in fold (\<lambda>i. set_prop (''f8949_'' @ showNat (i + 1))
                      (spread2 (formOrEmpty shortTermForms i) (formOrEmpty longTermForms i)))
           [0..<totalForms] [])"

subsection \<open>Results and validation\<close>

record issue =
  field :: string
  message :: string

record ValidationError = issue +
  severity :: string

record ValidationResult =
  isValid :: bool
  errors :: "ValidationError list"
  warnings :: "ValidationError list"

record ParseResult =
  formIds :: "string list"
  formsData :: FormsData
  validation :: ValidationResult

record ParseOptions =
  year :: int
  validate :: bool
  skipEmptyRows :: bool

definition createParseResult :: "string list \<Rightarrow> FormsData \<Rightarrow> ValidationResult \<Rightarrow> ParseResult" where
  "createParseResult ids data v = \<lparr> formIds = ids, formsData = data, validation = v \<rparr>"

definition createValidationResult :: "bool \<Rightarrow> issue list \<Rightarrow> issue list \<Rightarrow> ValidationResult" where
  "createValidationResult valid errs warns =
     \<lparr> isValid = valid,
       errors = map (\<lambda>e. \<lparr> field = field e, message = message e, severity = ''error'' \<rparr>) errs,
       warnings = map (\<lambda>w. \<lparr> field = field w, message = message w, severity = ''warning'' \<rparr>) warns \<rparr>"

text \<open>The inner loop of \<open>validate\<close>, over the entries of one form.\<close>

definition negativeProceeds :: "string \<Rightarrow> issue list \<Rightarrow> string \<times> cell \<Rightarrow> issue list" where
  "negativeProceeds formId warns entry =
     (case entry of
        (key, Num n) \<Rightarrow>
          (if includesStr key ''_c3'' \<and> numLess n (Fin 0)
           then warns @ [\<lparr> field = formId @ ''.'' @ key,
                           message = ''Negative proceeds amount detected'' \<rparr>]
           else warns)
      | _ \<Rightarrow> warns)"

definition validateForm :: "issue list \<Rightarrow> string \<times> VariableMap \<Rightarrow> issue list" where
  "validateForm warns entry =
     (case entry of
        (formId, fd) \<Rightarrow>
          (let warns = (if keys fd = []
                        then warns @ [\<lparr> field = formId, message = ''Form has no data'' \<rparr>]
                        else warns)
           in foldl (negativeProceeds formId) warns fd))"

definition F8949_validate :: "FormsData \<Rightarrow> ValidationResult" where
  "F8949_validate data =
     (let errs = (if keys data = []
                  then [\<lparr> field = ''forms'', message = ''No forms generated'' \<rparr>] else []);
          warns = foldl validateForm [] data
      in createValidationResult (errs = []) errs warns)"

definition F8949_parse :: "runtime \<Rightarrow> ExcelRow list \<Rightarrow> ParseOptions \<Rightarrow> error + ParseResult" where
  "F8949_parse rt rows options =
     (if rows = []
      then Inr (createParseResult [] []
                  (createValidationResult False
                     [\<lparr> field = ''sheet'', message = ''No data found in sheet'' \<rparr>] []))
      else
        (case parseTransactions rt rows of
           Inl e \<Rightarrow> Inl e
         | Inr transactions \<Rightarrow>
             (if transactions = []
              then Inr (createParseResult [] []
                          (createValidationResult False
                             [\<lparr> field = ''data'', message = ''No valid transactions found'' \<rparr>] []))
              else
                (let shortTerm = filter isShortTerm transactions;
                     longTerm = filter (\<lambda>t. \<not> isShortTerm t) transactions;
                     mapping = getF8949Mapping (year options);
                     shortTermForms = chunkTransactions rt shortTerm ST mapping;
                     longTermForms = chunkTransactions rt longTerm LT mapping;
                     data = combineForms shortTermForms longTermForms;
                     ids = keys data;
                     v = (if validate options then F8949_validate data
                          else createValidationResult True [] [])
                 in Inr (createParseResult ids data v)))))"

section \<open>F1040Parser\<close>

definition f1040_2025 :: FieldMapping where
  "f1040_2025 =
     [(''Line 1a'', ''topmostSubform[0].Page1[0].f1_47[0]''),
      (''Line 1b'', ''topmostSubform[0].Page1[0].f1_48[0]''),
      (''Line 1c'', ''topmostSubform[0].Page1[0].f1_49[0]''),
      (''Line 1d'', ''topmostSubform[0].Page1[0].f1_50[0]''),
      (''Line 1e'', ''topmostSubform[0].Page1[0].f1_51[0]''),
      (''Line 1f'', ''topmostSubform[0].Page1[0].f1_52[0]''),
      (''Line 1g'', ''topmostSubform[0].Page1[0].f1_53[0]''),
      (''Line 1ho'', ''topmostSubform[0].Page1[0].f1_54[0]''),
      (''Line 1h'', ''topmostSubform[0].Page1[0].f1_55[0]''),
      (''Line 1i'', ''topmostSubform[0].Page1[0].f1_56[0]''),
      (''Line 1z'', ''topmostSubform[0].Page1[0].f1_57[0]''),
      (''Line 2a'', ''topmostSubform[0].Page1[0].f1_58[0]''),
      (''Line 2b'', ''topmostSubform[0].Page1[0].f1_59[0]''),
      (''Line 3a'', ''topmostSubform[0].Page1[0].f1_60[0]''),
      (''Line 3b'', ''topmostSubform[0].Page1[0].f1_61[0]''),
      (''Line 4a'', ''topmostSubform[0].Page1[0].f1_62[0]''),
      (''Line 4b'', ''topmostSubform[0].Page1[0].f1_63[0]''),
      (''Line 5a'', ''topmostSubform[0].Page1[0].f1_65[0]''),
      (''Line 5b'', ''topmostSubform[0].Page1[0].f1_66[0]''),
      (''Line 6a'', ''topmostSubform[0].Page1[0].f1_68[0]''),
      (''Line 6b'', ''topmostSubform[0].Page1[0].f1_69[0]''),
      (''Line 7a'', ''topmostSubform[0].Page1[0].f1_70[0]''),
      (''Line 7b'', ''topmostSubform[0].Page1[0].f1_71[0]''),
      (''Line 8'', ''topmostSubform[0].Page1[0].f1_72[0]''),
      (''Line 9'', ''topmostSubform[0].Page1[0].f1_73[0]''),
      (''Line 10'', ''topmostSubform[0].Page1[0].f1_74[0]''),
      (''Line 11a'', ''topmostSubform[0].Page1[0].f1_75[0]''),
      (''Line 11b'', ''topmostSubform[0].Page2[0].f2_01[0]''),
      (''Line 12e'', ''topmostSubform[0].Page2[0].f2_02[0]''),
      (''Line 13a'', ''topmostSubform[0].Page2[0].f2_03[0]''),
      (''Line 13b'', ''topmostSubform[0].Page2[0].f2_04[0]''),
      (''Line 14'', ''topmostSubform[0].Page2[0].f2_05[0]''),
      (''Line 15'', ''topmostSubform[0].Page2[0].f2_06[0]''),
      (''Line 16'', ''topmostSubform[0].Page2[0].f2_08[0]''),
      (''Line 17'', ''topmostSubform[0].Page2[0].f2_09[0]''),
      (''Line 18'', ''topmostSubform[0].Page2[0].f2_10[0]''),
      (''Line 19'', ''topmostSubform[0].Page2[0].f2_11[0]''),
      (''Line 20'', ''topmostSubform[0].Page2[0].f2_12[0]''),
      (''Line 21'', ''topmostSubform[0].Page2[0].f2_13[0]''),
      (''Line 22'', ''topmostSubform[0].Page2[0].f2_14[0]''),
      (''Line 23'', ''topmostSubform[0].Page2[0].f2_15[0]''),
      (''Line 24'', ''topmostSubform[0].Page2[0].f2_16[0]''),
      (''Line 25a'', ''topmostSubform[0].Page2[0].f2_17[0]''),
      (''Line 25b'', ''topmostSubform[0].Page2[0].f2_18[0]''),
      (''Line 25c'', ''topmostSubform[0].Page2[0].f2_19[0]''),
      (''Line 25d'', ''topmostSubform[0].Page2[0].f2_20[0]''),
      (''Line 26'', ''topmostSubform[0].Page2[0].f2_21[0]''),
      (''Line 27a'', ''topmostSubform[0].Page2[0].f2_23[0]''),
      (''Line 28'', ''topmostSubform[0].Page2[0].f2_24[0]''),
      (''Line 29'', ''topmostSubform[0].Page2[0].f2_25[0]''),
      (''Line 30'', ''topmostSubform[0].Page2[0].f2_26[0]''),
      (''Line 31'', ''topmostSubform[0].Page2[0].f2_27[0]''),
      (''Line 32'', ''topmostSubform[0].Page2[0].f2_28[0]''),
      (''Line 33'', ''topmostSubform[0].Page2[0].f2_29[0]''),
      (''Line 34'', ''topmostSubform[0].Page2[0].f2_30[0]''),
      (''Line 35a'', ''topmostSubform[0].Page2[0].f2_31[0]''),
      (''Line 36'', ''topmostSubform[0].Page2[0].f2_34[0]''),
      (''Line 37'', ''topmostSubform[0].Page2[0].f2_35[0]''),
      (''Line 38'', ''topmostSubform[0].Page2[0].f2_36[0]'')]"

definition f1040Mappings :: "(int \<times> FieldMapping) list" where
  "f1040Mappings = [(2025, f1040_2025)]"

definition getF1040Mapping :: "int \<Rightarrow> FieldMapping" where
  "getF1040Mapping taxYear =
     (case map_of f1040Mappings taxYear of Some mapping \<Rightarrow> mapping | None \<Rightarrow> f1040_2025)"

definition looksLikeHeader :: "ExcelRow \<Rightarrow> bool" where
  "looksLikeHeader row =
     (let hasProperKeys =
            list_ex (\<lambda>k. toLowerCase k = ''variable'' \<or> toLowerCase k = ''value'') (keys row)
      in if hasProperKeys then False
         else (case row of
                 (k, Str firstValue) # _ \<Rightarrow>
                   (let normalized = trim (toLowerCase firstValue)
                    in list_ex (\<lambda>h. includesStr normalized h)
                         [''variable'', ''field'', ''line'', ''item''])
               | _ \<Rightarrow> False))"

definition hasColumns :: "ExcelRow \<Rightarrow> string list \<Rightarrow> bool" where
  "hasColumns row expectedColumns =
     (let ks = map (\<lambda>k. trim (toLowerCase k)) (keys row)
      in list_all (\<lambda>col. list_ex (\<lambda>k. includesStr k col \<or> includesStr col k) ks)
           expectedColumns)"

text \<open>
  \<open>mapping[String(variable)]\<close>, and the test \<open>mappedKey && !this.isEmpty(value)\<close> that
  guards the assignment to \<open>fieldValues\<close>. The mapping is a plain object, so a name
  that is not its own property is looked up in \<open>Object.prototype\<close>: an inherited value
  is a function or an object, which is truthy, and as the property name of the
  assignment it is its string.
\<close>

definition storeField :: "runtime \<Rightarrow> FieldMapping \<Rightarrow> cell \<Rightarrow> cell \<Rightarrow> VariableMap \<Rightarrow> VariableMap" where
  "storeField rt mapping variable v fieldValues =
     (case get_prop mapping (toStr rt variable) of
        None \<Rightarrow>
          (if toStr rt variable \<in> set objectPrototypeNames \<and> \<not> isEmpty v
           then set_prop (builtinToString rt (toStr rt variable)) v fieldValues
           else fieldValues)
      | Some mappedKey \<Rightarrow>
          (if mappedKey \<noteq> [] \<and> \<not> isEmpty v then set_prop mappedKey v fieldValues
           else fieldValues))"

text \<open>The row loop of \<open>parseColumnFormat\<close>: \<open>continue\<close> or \<open>break\<close> on an empty variable.\<close>

fun columnRows ::
  "runtime \<Rightarrow> string \<Rightarrow> string \<Rightarrow> bool \<Rightarrow> FieldMapping \<Rightarrow> ExcelRow list \<Rightarrow> VariableMap \<Rightarrow> VariableMap"
where
  "columnRows rt variableCol valueCol skip mapping [] fieldValues = fieldValues"
| "columnRows rt variableCol valueCol skip mapping (row # rows) fieldValues =
     (let variable = cellAt row variableCol;
          v = cellAt row valueCol
      in if isEmpty variable
         then (if skip then columnRows rt variableCol valueCol skip mapping rows fieldValues
               else fieldValues)
         else columnRows rt variableCol valueCol skip mapping rows
                (storeField rt mapping variable v fieldValues))"

definition parseColumnFormat ::
  "runtime \<Rightarrow> ExcelRow list \<Rightarrow> FieldMapping \<Rightarrow> VariableMap \<Rightarrow> bool \<Rightarrow> VariableMap"
where
  "parseColumnFormat rt rows mapping fieldValues skip =
     (case rows of
        [] \<Rightarrow> fieldValues
      | firstRow # _ \<Rightarrow>
          (let headers = keys firstRow;
               variableCol = find (\<lambda>h. includesStr (toLowerCase h) ''variable''
                                       \<or> includesStr (toLowerCase h) ''field''
                                       \<or> includesStr (toLowerCase h) ''line'') headers;
               valueCol = find (\<lambda>h. includesStr (toLowerCase h) ''value''
                                    \<or> includesStr (toLowerCase h) ''amount'') headers
           in (case (variableCol, valueCol) of
                 (Some vc, Some wc) \<Rightarrow>
                   (if vc = [] \<or> wc = [] then fieldValues
                    else columnRows rt vc wc skip mapping rows fieldValues)
               | _ \<Rightarrow> fieldValues)))"

text \<open>The row loop of \<open>parseSimpleFormat\<close>: \<open>break\<close> on an empty variable.\<close>

fun simpleRows ::
  "runtime \<Rightarrow> string \<Rightarrow> string \<Rightarrow> FieldMapping \<Rightarrow> ExcelRow list \<Rightarrow> VariableMap \<Rightarrow> VariableMap"
where
  "simpleRows rt variableCol valueCol mapping [] fieldValues = fieldValues"
| "simpleRows rt variableCol valueCol mapping (row # rows) fieldValues =
     (let variable = cellAt row variableCol;
          v = cellAt row valueCol
      in if isEmpty variable then fieldValues
         else simpleRows rt variableCol valueCol mapping rows
                (storeField rt mapping variable v fieldValues))"

definition parseSimpleFormat ::
  "runtime \<Rightarrow> ExcelRow list \<Rightarrow> FieldMapping \<Rightarrow> VariableMap \<Rightarrow> VariableMap"
where
  "parseSimpleFormat rt rows mapping fieldValues =
     (let headers = keys (case rows of [] \<Rightarrow> [] | firstRow # _ \<Rightarrow> firstRow)
      in (case headers of
            variableCol # valueCol # _ \<Rightarrow> simpleRows rt variableCol valueCol mapping rows fieldValues
          | _ \<Rightarrow> fieldValues))"

definition F1040_validate :: "FormsData \<Rightarrow> ValidationResult" where
  "F1040_validate data =
     (case get_prop data ''f1040'' of
        None \<Rightarrow>
          createValidationResult False
            [\<lparr> field = ''f1040'', message = ''No data found for Form 1040'' \<rparr>] []
      | Some fd \<Rightarrow>
          (if keys fd = []
           then createValidationResult False
                  [\<lparr> field = ''f1040'', message = ''No data found for Form 1040'' \<rparr>] []
           else
             (let requiredFields = [''topmostSubform[0].Page1[0].f1_32[0]''];
                  warns = foldl (\<lambda>warns f.
                                   if isEmpty (cellAt fd f)
                                   then warns @ [\<lparr> field = f, message = ''Required field is empty'' \<rparr>]
                                   else warns)
                            [] requiredFields
              in createValidationResult True [] warns)))"

definition F1040_parse :: "runtime \<Rightarrow> ExcelRow list \<Rightarrow> ParseOptions \<Rightarrow> error + ParseResult" where
  "F1040_parse rt rows options =
     (case rows of
        [] \<Rightarrow>
          Inr (createParseResult [] []
                 (createValidationResult False
                    [\<lparr> field = ''sheet'', message = ''No data found in sheet'' \<rparr>] []))
      | firstRow # rest \<Rightarrow>
          (let mapping = getF1040Mapping (year options);
               hasHeader = looksLikeHeader firstRow;
               dataRows = (if hasHeader then rest else rows);
               fieldValues =
                 (if hasHeader \<and> hasColumns firstRow [''variable'', ''value'']
                  then parseColumnFormat rt dataRows mapping [] (skipEmptyRows options)
                  else parseSimpleFormat rt dataRows mapping []);
               data = [(''f1040'', fieldValues)];
               v = (if validate options then F1040_validate data
                    else createValidationResult True [] [])
           in Inr (createParseResult [''f1040''] data v)))"

section \<open>ParserRegistry\<close>

datatype FormParser = F8949Parser | F1040Parser

definition canParse :: "FormParser \<Rightarrow> string \<Rightarrow> bool" where
  "canParse parser sheetName =
     (case parser of
        F8949Parser \<Rightarrow> toLowerCase sheetName = ''f8949'' \<or> toLowerCase sheetName = ''8949''
      | F1040Parser \<Rightarrow> toLowerCase sheetName = ''f1040'' \<or> toLowerCase sheetName = ''1040'')"

definition parse :: "FormParser \<Rightarrow> runtime \<Rightarrow> ExcelRow list \<Rightarrow> ParseOptions \<Rightarrow> error + ParseResult" where
  "parse parser rt rows options =
     (case parser of
        F8949Parser \<Rightarrow> F8949_parse rt rows options
      | F1040Parser \<Rightarrow> F1040_parse rt rows options)"

text \<open>The parsers in the order the constructor registers them.\<close>

definition parserRegistry :: "FormParser list" where
  "parserRegistry = [F8949Parser, F1040Parser]"

definition findParser :: "FormParser list \<Rightarrow> string \<Rightarrow> FormParser option" where
  "findParser parsers sheetName = find (\<lambda>p. canParse p sheetName) parsers"

definition ParserRegistry_parse ::
  "FormParser list \<Rightarrow> runtime \<Rightarrow> string \<Rightarrow> ExcelRow list \<Rightarrow> ParseOptions \<Rightarrow> error + ParseResult"
where
  "ParserRegistry_parse parsers rt sheetName rows options =
     (case findParser parsers sheetName of
        None \<Rightarrow>
          Inr \<lparr> formIds = [],
                formsData = [],
                validation =
                  \<lparr> isValid = False,
                    errors = [\<lparr> field = ''sheet'',
                                message = ''No parser found for sheet: '' @ sheetName,
                                severity = ''error'' \<rparr>],
                    warnings = [] \<rparr> \<rparr>
      | Some parser \<Rightarrow> parse parser rt rows options)"

text \<open>
  A runtime for the examples below. It rounds to the nearest double, ties to even (IEEE
  754 binary64: 53 bits of precision, exponents of the last place from \<open>-1074\<close> to
  \<open>971\<close>), prints the whole part of a number, reads a string of decimal digits, parses
  no date, keeps local time at UTC and prints a function as V8 does.
\<close>

function bitLength :: "int \<Rightarrow> int" where
  "bitLength n = (if n \<le> 0 then 0 else 1 + bitLength (n div 2))"
  by pat_completeness auto

termination
  by (relation "measure nat") auto

declare bitLength.simps [simp del]

text \<open>The exponent \<open>e\<close> of a positive \<open>x\<close>: \<open>2\<^sup>e \<le> x < 2\<^sup>e\<^sup>+\<^sup>1\<close>.\<close>

definition exponentOf :: "rat \<Rightarrow> int" where
  "exponentOf x =
     (if 1 \<le> x then bitLength \<lfloor>x\<rfloor> - 1 else - bitLength (\<lceil>1 / x\<rceil> - 1))"

definition pow2 :: "int \<Rightarrow> rat" where
  "pow2 e = (if 0 \<le> e then 2 ^ nat e else 1 / 2 ^ nat (- e))"

definition roundHalfEven :: "rat \<Rightarrow> int" where
  "roundHalfEven m =
     (let f = \<lfloor>m\<rfloor>; r = m - of_int f
      in if r < 1 / 2 then f else if 1 / 2 < r then f + 1 else if even f then f else f + 1)"

definition ieeeRound :: "rat \<Rightarrow> number" where
  "ieeeRound x =
     (if x = 0 then Fin 0
      else let a = \<bar>x\<bar>;
               q = max (exponentOf a - 52) (- 1074);
               y = of_int (roundHalfEven (a / pow2 q)) * pow2 q
           in if 2 ^ 1024 \<le> y then (if 0 < x then PosInf else NegInf)
              else Fin (if 0 < x then y else - y))"

definition digitsValue :: "string \<Rightarrow> rat option" where
  "digitsValue s =
     (if s \<noteq> [] \<and> list_all (\<lambda>c. c \<in> set ''0123456789'') s
      then Some (of_nat (foldl (\<lambda>n c. 10 * n + (of_char c - 48)) 0 s))
      else None)"

definition exampleRuntime :: runtime where
  "exampleRuntime =
     \<lparr> roundNearest = ieeeRound,
       numToString = (\<lambda>n. case n of Fin x \<Rightarrow> showInt \<lfloor>x\<rfloor> | PosInf \<Rightarrow> ''Infinity''
                          | NegInf \<Rightarrow> ''-Infinity'' | NaN \<Rightarrow> ''NaN''),
       parseFloat = (\<lambda>s. case digitsValue s of None \<Rightarrow> NaN | Some x \<Rightarrow> ieeeRound x),
       dateParse = (\<lambda>s. None),
       dateToString = (\<lambda>d. ''Invalid Date''),
       localTime = (\<lambda>t. t),
       builtinToString =
         (\<lambda>name. if name = ''__proto__'' then ''[object Object]''
                  else if name = ''constructor'' then ''function Object() { [native code] }''
                  else ''function '' @ name @ ''() { [native code] }'') \<rparr>"

text \<open>
  Twenty short-term transactions for the examples, with sale prices 0 to 19, a cost of
  10 and an adjustment of 1 each.
\<close>

definition twentyTransactions :: "CapitalTransaction list" where
  "twentyTransactions =
     map (\<lambda>i. \<lparr> quantity = Fin 1, name = ''ACME'', purchaseDate = ''01/01/2024'',
                 sellDate = ''12/30/2024'', purchasePrice = Fin 10, sellPrice = Fin (of_nat i),
                 code = [], adjustment = Fin 1, isShortTerm = True \<rparr>)
       [0..<20]"

text \<open>
  Two short-term transactions for the examples, with sale prices \<open>2\<^sup>5\<^sup>3\<close> and 1.
\<close>

definition largeAndSmall :: "CapitalTransaction list" where
  "largeAndSmall =
     [\<lparr> quantity = Fin 1, name = ''ACME'', purchaseDate = ''01/01/2024'',
        sellDate = ''12/30/2024'', purchasePrice = Fin 0, sellPrice = Fin 9007199254740992,
        code = [], adjustment = Fin 0, isShortTerm = True \<rparr>,
      \<lparr> quantity = Fin 1, name = ''ACME'', purchaseDate = ''01/01/2024'',
        sellDate = ''12/30/2024'', purchasePrice = Fin 0, sellPrice = Fin 1,
        code = [], adjustment = Fin 0, isShortTerm = True \<rparr>]"

section \<open>Properties\<close>

subsection \<open>The calendar\<close>

lemma div_step:
  fixes k n :: int
  assumes "0 < n"
  shows "(k + 1) div n = k div n + (if (k + 1) mod n = 0 then 1 else 0)"
proof (cases "(k + 1) mod n = 0")
  case True
  have "k = n * ((k + 1) div n - 1) + (n - 1)"
    using True div_mult_mod_eq [of "k + 1" n] by (simp add: algebra_simps)
  then have "k div n = (k + 1) div n - 1"
    using assms by (intro int_div_pos_eq [where r = "n - 1"]) auto
  with True show ?thesis by simp
next
  case False
  have "0 \<le> (k + 1) mod n" "(k + 1) mod n < n"
    using assms by simp_all
  with False have r: "0 \<le> (k + 1) mod n - 1" "(k + 1) mod n - 1 < n"
    by linarith+
  have "k = n * ((k + 1) div n) + ((k + 1) mod n - 1)"
    using div_mult_mod_eq [of "k + 1" n] by (simp add: algebra_simps)
  then have "k div n = (k + 1) div n"
    using assms r by (intro int_div_pos_eq [where r = "(k + 1) mod n - 1"]) auto
  with False show ?thesis by simp
qed

lemma leap_mods:
  fixes y :: int
  shows "(y - 1968) mod 4 = 0 \<longleftrightarrow> y mod 4 = 0"
    and "(y - 1900) mod 100 = 0 \<longleftrightarrow> y mod 100 = 0"
    and "(y - 1600) mod 400 = 0 \<longleftrightarrow> y mod 400 = 0"
  by (simp_all add: mod_eq_0_iff_dvd dvd_diff_left_iff)

lemma mod_100_4: "y mod 100 = 0 \<Longrightarrow> y mod 4 = 0" for y :: int
  using mod_mod_cancel [of 4 100 y] by simp

lemma mod_400_100: "y mod 400 = 0 \<Longrightarrow> y mod 100 = 0" for y :: int
  using mod_mod_cancel [of 100 400 y] by simp


lemma leap_sum:
  fixes A B C x :: int
  assumes "p100 \<Longrightarrow> p4" "p400 \<Longrightarrow> p100"
  shows "365 * (x + 1) + (A + (if p4 then 1 else 0)) - (B + (if p100 then 1 else 0))
           + (C + (if p400 then 1 else 0))
         = 365 * x + A - B + C
           + (if \<not> p4 then 365 else if \<not> p100 then 366 else if \<not> p400 then 365 else 366)"
  using assms by (cases p4; cases p100; cases p400) simp_all

lemma DayFromYear_step: "DayFromYear (y + 1) = DayFromYear y + DaysInYear y"
proof -
  have a: "(y - 1968) div 4 = (y - 1969) div 4 + (if y mod 4 = 0 then 1 else 0)"
    using div_step [of 4 "y - 1969"] by (simp add: leap_mods)
  have b: "(y - 1900) div 100 = (y - 1901) div 100 + (if y mod 100 = 0 then 1 else 0)"
    using div_step [of 100 "y - 1901"] by (simp add: leap_mods)
  have c: "(y - 1600) div 400 = (y - 1601) div 400 + (if y mod 400 = 0 then 1 else 0)"
    using div_step [of 400 "y - 1601"] by (simp add: leap_mods)
  have e: "y + 1 - 1970 = (y - 1970) + 1" "y + 1 - 1969 = y - 1968" "y + 1 - 1901 = y - 1900"
    "y + 1 - 1601 = y - 1600"
    by simp_all
  show ?thesis
    unfolding DayFromYear_def DaysInYear_def e a b c
    by (rule leap_sum) (erule mod_100_4 mod_400_100)+
qed

lemma DaysInYear_bounds: "365 \<le> DaysInYear y" "DaysInYear y \<le> 366"
  by (simp_all add: DaysInYear_def)

lemma DayFromYear_1970: "DayFromYear 1970 = 0"
  by (simp add: DayFromYear_def)

lemma DayFromYear_after:
  "1970 \<le> y \<Longrightarrow> 365 * (y - 1970) \<le> DayFromYear y \<and> DayFromYear y \<le> 366 * (y - 1970)"
proof (induction y rule: int_ge_induct)
  case base
  show ?case by (simp add: DayFromYear_1970)
next
  case (step i)
  then show ?case
    using DaysInYear_bounds [of i] by (simp add: DayFromYear_step)
qed

lemma DayFromYear_before:
  "y \<le> 1970 \<Longrightarrow> 366 * (y - 1970) \<le> DayFromYear y \<and> DayFromYear y \<le> 365 * (y - 1970)"
proof (induction y rule: int_le_induct)
  case base
  show ?case by (simp add: DayFromYear_1970)
next
  case (step i)
  then show ?case
    using DaysInYear_bounds [of "i - 1"] DayFromYear_step [of "i - 1"] by simp
qed

lemma DayFromYear_mono: "y \<le> z \<Longrightarrow> DayFromYear y \<le> DayFromYear z"
proof (induction z rule: int_ge_induct)
  case base
  show ?case by simp
next
  case (step i)
  then show ?case
    using DaysInYear_bounds [of i] by (simp add: DayFromYear_step)
qed


lemma le_div_int:
  fixes n k d :: int
  assumes "0 < n" "n * k \<le> d"
  shows "k \<le> d div n"
proof -
  have "(n * k) div n \<le> d div n"
    using assms by (intro zdiv_mono1) auto
  then show ?thesis using assms(1) by simp
qed

lemma div_less_int:
  fixes n k d :: int
  assumes "0 < n" "d < n * k"
  shows "d div n < k"
proof (rule ccontr)
  assume "\<not> d div n < k"
  then have "n * k \<le> n * (d div n)"
    using assms(1) by (intro mult_left_mono) auto
  also have "n * (d div n) \<le> d"
  proof -
    have "n * (d div n) + d mod n = d" by simp
    moreover have "0 \<le> d mod n" using assms(1) by simp
    ultimately show ?thesis by linarith
  qed
  finally show False using assms(2) by simp
qed

lemma last_filter_upto:
  fixes lo hi y :: int
  assumes "lo \<le> y" "y \<le> hi" "P y" "\<And>z. y < z \<Longrightarrow> z \<le> hi \<Longrightarrow> \<not> P z"
  shows "last (filter P [lo..hi]) = y"
proof -
  have "[lo..hi] = [lo..y - 1] @ y # [y + 1..hi]"
    using assms(1,2) by (rule upto_split3)
  moreover have "filter P [y + 1..hi] = []"
    using assms(4) by (auto simp: filter_empty_conv)
  ultimately show ?thesis
    using assms(3) by simp
qed

lemma year_window:
  fixes d y :: int
  assumes "DayFromYear y \<le> d" "d < DayFromYear (y + 1)"
  shows "1970 + min (d div 365) (d div 366) - 1 \<le> y"
    and "y \<le> 1970 + max (d div 365) (d div 366) + 1"
proof -
  have "1970 + min (d div 365) (d div 366) - 1 \<le> y \<and> y \<le> 1970 + max (d div 365) (d div 366) + 1"
  proof (cases "1970 \<le> y")
    case True
    then have "365 * (y - 1970) \<le> d" "d < 366 * (y - 1969)"
      using DayFromYear_after [of y] DayFromYear_after [of "y + 1"] assms by auto
    then have "y - 1970 \<le> d div 365" "d div 366 < y - 1969"
      by (simp_all add: le_div_int div_less_int)
    then show ?thesis by auto
  next
    case False
    then have "366 * (y - 1970) \<le> d" "d < 365 * (y - 1969)"
      using DayFromYear_before [of y] DayFromYear_before [of "y + 1"] assms by auto
    then have "y - 1970 \<le> d div 366" "d div 365 < y - 1969"
      by (simp_all add: le_div_int div_less_int)
    then show ?thesis by auto
  qed
  then show "1970 + min (d div 365) (d div 366) - 1 \<le> y"
    and "y \<le> 1970 + max (d div 365) (d div 366) + 1"
    by simp_all
qed

lemma YearFromTime_eqI:
  assumes "DayFromYear y \<le> Day t" "Day t < DayFromYear (y + 1)"
  shows "YearFromTime t = y"
proof -
  have "\<not> DayFromYear z \<le> Day t" if "y < z" for z
    using DayFromYear_mono [of "y + 1" z] that assms(2) by simp
  then show ?thesis
    unfolding YearFromTime_def Let_def
    using year_window [OF assms] assms(1) by (intro last_filter_upto) auto
qed

lemma int_last_true:
  fixes a b :: int
  assumes "a \<le> b" "P a" "\<not> P b"
  shows "\<exists>y. P y \<and> \<not> P (y + 1)"
  using assms
proof (induction b rule: int_ge_induct)
  case base
  then show ?case by simp
next
  case (step i)
  then show ?case by (cases "P i") auto
qed

lemma year_exists: "\<exists>y. DayFromYear y \<le> d \<and> d < DayFromYear (y + 1)"
proof (cases "0 \<le> d")
  case True
  have "d < DayFromYear (1971 + d)"
    using DayFromYear_after [of "1971 + d"] True by simp
  with True show ?thesis
    using int_last_true [of 1970 "1971 + d" "\<lambda>y. DayFromYear y \<le> d"]
    by (auto simp: DayFromYear_1970 not_le)
next
  case False
  then have "DayFromYear (1970 + d) \<le> d"
    using DayFromYear_before [of "1970 + d"] by simp
  with False show ?thesis
    using int_last_true [of "1970 + d" 1970 "\<lambda>y. DayFromYear y \<le> d"]
    by (auto simp: DayFromYear_1970 not_le)
qed

text \<open>\<open>YearFromTime\<close> is the year of ECMAScript: the largest year that starts on or before the day of \<open>t\<close>.\<close>

lemma YearFromTime_spec:
  "DayFromYear (YearFromTime t) \<le> Day t \<and> Day t < DayFromYear (YearFromTime t + 1)"
proof -
  obtain y where y: "DayFromYear y \<le> Day t" "Day t < DayFromYear (y + 1)"
    using year_exists by blast
  then have "YearFromTime t = y" by (rule YearFromTime_eqI)
  with y show ?thesis by simp
qed

lemma utc_fields:
  assumes "DayFromYear y \<le> Day t" "Day t < DayFromYear (y + 1)"
  shows "YearFromTime t = y"
    and "DayWithinYear t = Day t - DayFromYear y"
    and "InLeapYear t = (if DaysInYear y = 366 then 1 else 0)"
  using YearFromTime_eqI [OF assms] by (simp_all add: DayWithinYear_def InLeapYear_def)

subsection \<open>Arithmetic of doubles\<close>

lemma isInteger_of_int: "isInteger (of_int k)"
  by (simp add: isInteger_def)

lemma fl_of_int: "\<bar>k\<bar> \<le> 2 ^ 53 \<Longrightarrow> fl rt (of_int k) = Fin (of_int k)"
proof -
  assume "\<bar>k\<bar> \<le> 2 ^ 53"
  then have "\<bar>of_int k :: rat\<bar> \<le> 2 ^ 53"
    by (simp only: of_int_abs [symmetric] of_int_le_numeral_power_cancel_iff)
  then show ?thesis by (simp add: fl_def isInteger_of_int)
qed

lemma newDate_of_int: "\<bar>k\<bar> \<le> 8640000000000000 \<Longrightarrow> newDate (Fin (of_int k)) = Some k"
proof -
  assume "\<bar>k\<bar> \<le> 8640000000000000"
  then have "\<bar>of_int k :: rat\<bar> \<le> 8640000000000000"
    by (simp only: of_int_abs [symmetric] of_int_le_numeral_iff)
  then show ?thesis by (simp add: newDate_def)
qed

lemma newDate_fl_far:
  "isInteger x \<or> 2 ^ 53 < \<bar>x\<bar> \<Longrightarrow> 8640000000000000 < \<bar>x\<bar> \<Longrightarrow> newDate (fl rt x) = None"
  by (auto simp: fl_def newDate_def split: number.splits)

lemma fl_Fin_cases:
  "isInteger p \<Longrightarrow> fl rt p = Fin y \<Longrightarrow> y = p \<and> \<bar>p\<bar> \<le> 2 ^ 53 \<or> 2 ^ 53 \<le> \<bar>y\<bar>"
  by (auto simp: fl_def split: if_splits number.splits)

lemma numTimes_not_finite: "\<forall>x. a \<noteq> Fin x \<Longrightarrow> newDate (numTimes rt a b) = None"
  by (cases a; cases b; simp add: numTimes_def newDate_def)

subsection \<open>Dates and the holding period\<close>

lemma numTimes_Fin: "numTimes rt (Fin x) (Fin y) = fl rt (x * y)"
  by (simp add: numTimes_def)

lemma numTimes_stays: "\<forall>x. a \<noteq> Fin x \<Longrightarrow> \<forall>y. numTimes rt a b \<noteq> Fin y"
  by (cases a; cases b; simp add: numTimes_def)

lemma serial_date:
  "newDate (numTimes rt (numTimes rt (mathFloor a) (Fin 86400)) (Fin 1000)) =
     (case mathFloor a of
        Fin q \<Rightarrow> (if \<bar>q\<bar> \<le> 100000000 then Some (\<lfloor>q\<rfloor> * msPerDay) else None)
      | _ \<Rightarrow> None)"
proof (cases a)
  case (Fin x)
  define d where "d = \<lfloor>x\<rfloor>"
  have mf: "mathFloor a = Fin (of_int d)"
    by (simp add: Fin mathFloor_def d_def)
  have q: "(\<bar>of_int d :: rat\<bar> \<le> 100000000) = (\<bar>d\<bar> \<le> 100000000)"
    by (simp only: of_int_abs [symmetric] of_int_le_numeral_iff)
  have t1: "numTimes rt (Fin (of_int d)) (Fin 86400) = fl rt (of_int (d * 86400))"
    by (simp add: numTimes_def)
  show ?thesis
  proof (cases "\<bar>d\<bar> \<le> 100000000")
    case True
    then have b1: "\<bar>d * 86400\<bar> \<le> 2 ^ 53" and b2: "\<bar>d * 86400 * 1000\<bar> \<le> 2 ^ 53"
      and b3: "\<bar>d * 86400 * 1000\<bar> \<le> 8640000000000000"
      by (simp_all add: abs_mult)
    have "numTimes rt (fl rt (of_int (d * 86400))) (Fin 1000) = fl rt (of_int (d * 86400 * 1000))"
      unfolding fl_of_int [OF b1] by (simp add: numTimes_def)
    also have "\<dots> = Fin (of_int (d * 86400 * 1000))"
      by (rule fl_of_int [OF b2])
    finally have "newDate (numTimes rt (numTimes rt (mathFloor a) (Fin 86400)) (Fin 1000))
        = Some (d * 86400 * 1000)"
      unfolding mf t1 using newDate_of_int [OF b3] by simp
    then show ?thesis
      unfolding mf using True by (simp add: q msPerDay_def)
  next
    case False
    then have "8640000000000 < \<bar>d * 86400\<bar>"
      by (simp add: abs_mult)
    then have "(of_int 8640000000000 :: rat) < of_int \<bar>d * 86400\<bar>"
      by (simp only: of_int_less_iff)
    then have far: "8640000000000 < \<bar>of_int (d * 86400) :: rat\<bar>"
      by (simp only: of_int_abs of_int_numeral)
    have "newDate (numTimes rt (fl rt (of_int (d * 86400))) (Fin 1000)) = None"
    proof (cases "fl rt (of_int (d * 86400))")
      case (Fin y)
      from fl_Fin_cases [OF isInteger_of_int Fin]
      have "isInteger (y * 1000) \<or> 2 ^ 53 < \<bar>y * 1000\<bar>" and "8640000000000000 < \<bar>y * 1000\<bar>"
        using far by (auto simp: isInteger_def abs_mult)
      then have "newDate (fl rt (y * 1000)) = None" by (rule newDate_fl_far)
      then show ?thesis unfolding Fin numTimes_Fin .
    qed (simp_all add: numTimes_not_finite)
    then show ?thesis
      unfolding mf t1 using False by (simp add: q)
  qed
qed (simp_all add: mathFloor_def numTimes_not_finite numTimes_stays)

lemma parseDate_Num:
  "parseDate rt (Num serial) =
     (case mathFloor (numMinus rt serial (Fin 25569)) of
        Fin q \<Rightarrow> (if \<bar>q\<bar> \<le> 100000000 then Some (\<lfloor>q\<rfloor> * msPerDay) else None)
      | _ \<Rightarrow> None)"
  by (simp only: parseDate_def Let_def cell.case serial_date)

lemma excelDateToString_cases:
  "excelDateToString rt serial =
     (case parseDate rt (Num serial) of
        None \<Rightarrow> ''NaN/NaN/NaN''
      | Some t \<Rightarrow>
          padStart 2 CHR ''0'' (showInt (MonthFromTime t + 1)) @ ''/''
            @ padStart 2 CHR ''0'' (showInt (DateFromTime t)) @ ''/''
            @ showInt (YearFromTime t))"
proof -
  define v where "v = newDate (numTimes rt (numTimes rt (mathFloor (numMinus rt serial (Fin 25569))) (Fin 86400)) (Fin 1000))"
  have p: "parseDate rt (Num serial) = v"
    unfolding v_def by (simp only: parseDate_def Let_def cell.case)
  have n: "padStart 2 CHR ''0'' ''NaN'' = ''NaN''" by (simp add: padStart_def)
  show ?thesis
    unfolding p unfolding excelDateToString_def Let_def v_def [symmetric]
    by (cases v)
       (simp_all add: n getUTCMonth_def getUTCDate_def getUTCFullYear_def showNum_def)
qed

lemma serial_floor:
  "\<bar>k - 25569\<bar> \<le> 2 ^ 53 \<Longrightarrow>
     mathFloor (numMinus rt (Fin (of_int k)) (Fin 25569)) = Fin (of_int (k - 25569))"
proof -
  assume b: "\<bar>k - 25569\<bar> \<le> 2 ^ 53"
  have "numMinus rt (Fin (of_int k)) (Fin 25569) = fl rt (of_int (k - 25569))"
    by (simp add: numMinus_def numPlus_def numNeg_def)
  then show ?thesis
    unfolding fl_of_int [OF b] by (simp add: mathFloor_def)
qed

lemma parseDate_serial:
  "\<bar>k - 25569\<bar> \<le> 100000000 \<Longrightarrow>
     parseDate rt (Num (Fin (of_int k))) = Some ((k - 25569) * msPerDay)"
proof -
  assume b: "\<bar>k - 25569\<bar> \<le> 100000000"
  then have "\<bar>k - 25569\<bar> \<le> 2 ^ 53" by simp
  then have f: "mathFloor (numMinus rt (Fin (of_int k)) (Fin 25569)) = Fin (of_int (k - 25569))"
    by (rule serial_floor)
  have q: "\<bar>of_int (k - 25569) :: rat\<bar> \<le> 100000000"
    using b by (simp only: of_int_abs [symmetric] of_int_le_numeral_iff)
  show ?thesis
    unfolding parseDate_Num f using q by simp
qed

lemmas show_defs = showInt_def showNat.simps digitChar_def padStart_def

lemmas field_defs = excelDateToString_cases MonthFromTime_def DateFromTime_def Let_def

lemma serial_45292: "excelDateToString rt (Fin 45292) = ''01/01/2024''"
proof -
  have "YearFromTime 1704067200000 = 2024" "DayWithinYear 1704067200000 = 0"
    "InLeapYear 1704067200000 = 1"
    using utc_fields [of 2024 1704067200000]
    by (simp_all add: Day_def msPerDay_def DayFromYear_def DaysInYear_def)
  then show ?thesis
    using parseDate_serial [of 45292 rt] by (simp add: field_defs msPerDay_def show_defs)
qed

text \<open>
  The month and the day of the month of a time value are those of the calendar date of
  its day.
\<close>

lemma civil_date:
  "1 \<le> MonthFromTime t + 1 \<and> MonthFromTime t + 1 \<le> 12
   \<and> 1 \<le> DateFromTime t
   \<and> DateFromTime t \<le> daysInMonth (YearFromTime t) (MonthFromTime t + 1)
   \<and> civilDay (YearFromTime t) (MonthFromTime t + 1) (DateFromTime t) = Day t"
proof -
  define y where "y = YearFromTime t"
  define w where "w = DayWithinYear t"
  define l where "l = InLeapYear t"
  have "DayFromYear y \<le> Day t" "Day t < DayFromYear y + DaysInYear y"
    using YearFromTime_spec [of t] by (simp_all add: y_def DayFromYear_step)
  then have w: "0 \<le> w" "w < DaysInYear y" and d: "Day t = DayFromYear y + w"
    by (simp_all add: w_def DayWithinYear_def y_def)
  have l: "l = 0 \<and> DaysInYear y = 365 \<or> l = 1 \<and> DaysInYear y = 366"
    by (simp add: l_def InLeapYear_def y_def [symmetric] DaysInYear_def)
  have m: "MonthFromTime t =
     (if w < 31 then 0 else if w < 59 + l then 1 else if w < 90 + l then 2
         else if w < 120 + l then 3 else if w < 151 + l then 4 else if w < 181 + l then 5
         else if w < 212 + l then 6 else if w < 243 + l then 7 else if w < 273 + l then 8
         else if w < 304 + l then 9 else if w < 334 + l then 10 else 11)"
    by (simp add: MonthFromTime_def Let_def w_def l_def)
  consider "w < 31" | "31 \<le> w" "w < 59 + l" | "59 + l \<le> w" "w < 90 + l"
    | "90 + l \<le> w" "w < 120 + l" | "120 + l \<le> w" "w < 151 + l" | "151 + l \<le> w" "w < 181 + l"
    | "181 + l \<le> w" "w < 212 + l" | "212 + l \<le> w" "w < 243 + l" | "243 + l \<le> w" "w < 273 + l"
    | "273 + l \<le> w" "w < 304 + l" | "304 + l \<le> w" "w < 334 + l" | "334 + l \<le> w"
    by linarith
  then show ?thesis
  proof cases
    case 1
    then have "MonthFromTime t = 0" by (simp add: m)
    then show ?thesis
      using 1 w l d
      by (simp add: DateFromTime_def Let_def w_def [symmetric] l_def [symmetric]
          y_def [symmetric] daysInMonth_def civilDay_def upto_rec1)
  next
    case 2
    then have "MonthFromTime t = 1" using l by (auto simp add: m)
    then show ?thesis
      using 2 w l d
      by (auto simp add: DateFromTime_def Let_def w_def [symmetric] l_def [symmetric]
          y_def [symmetric] daysInMonth_def civilDay_def upto_rec1)
  next
    case 3
    then have "MonthFromTime t = 2" using l by (auto simp add: m)
    then show ?thesis
      using 3 w l d
      by (auto simp add: DateFromTime_def Let_def w_def [symmetric] l_def [symmetric]
          y_def [symmetric] daysInMonth_def civilDay_def upto_rec1)
  next
    case 4
    then have "MonthFromTime t = 3" using l by (auto simp add: m)
    then show ?thesis
      using 4 w l d
      by (auto simp add: DateFromTime_def Let_def w_def [symmetric] l_def [symmetric]
          y_def [symmetric] daysInMonth_def civilDay_def upto_rec1)
  next
    case 5
    then have "MonthFromTime t = 4" using l by (auto simp add: m)
    then show ?thesis
      using 5 w l d
      by (auto simp add: DateFromTime_def Let_def w_def [symmetric] l_def [symmetric]
          y_def [symmetric] daysInMonth_def civilDay_def upto_rec1)
  next
    case 6
    then have "MonthFromTime t = 5" using l by (auto simp add: m)
    then show ?thesis
      using 6 w l d
      by (auto simp add: DateFromTime_def Let_def w_def [symmetric] l_def [symmetric]
          y_def [symmetric] daysInMonth_def civilDay_def upto_rec1)
  next
    case 7
    then have "MonthFromTime t = 6" using l by (auto simp add: m)
    then show ?thesis
      using 7 w l d
      by (auto simp add: DateFromTime_def Let_def w_def [symmetric] l_def [symmetric]
          y_def [symmetric] daysInMonth_def civilDay_def upto_rec1)
  next
    case 8
    then have "MonthFromTime t = 7" using l by (auto simp add: m)
    then show ?thesis
      using 8 w l d
      by (auto simp add: DateFromTime_def Let_def w_def [symmetric] l_def [symmetric]
          y_def [symmetric] daysInMonth_def civilDay_def upto_rec1)
  next
    case 9
    then have "MonthFromTime t = 8" using l by (auto simp add: m)
    then show ?thesis
      using 9 w l d
      by (auto simp add: DateFromTime_def Let_def w_def [symmetric] l_def [symmetric]
          y_def [symmetric] daysInMonth_def civilDay_def upto_rec1)
  next
    case 10
    then have "MonthFromTime t = 9" using l by (auto simp add: m)
    then show ?thesis
      using 10 w l d
      by (auto simp add: DateFromTime_def Let_def w_def [symmetric] l_def [symmetric]
          y_def [symmetric] daysInMonth_def civilDay_def upto_rec1)
  next
    case 11
    then have "MonthFromTime t = 10" using l by (auto simp add: m)
    then show ?thesis
      using 11 w l d
      by (auto simp add: DateFromTime_def Let_def w_def [symmetric] l_def [symmetric]
          y_def [symmetric] daysInMonth_def civilDay_def upto_rec1)
  next
    case 12
    then have "MonthFromTime t = 11" using l by (auto simp add: m)
    then show ?thesis
      using 12 w l d
      by (auto simp add: DateFromTime_def Let_def w_def [symmetric] l_def [symmetric]
          y_def [symmetric] daysInMonth_def civilDay_def upto_rec1)
  qed
qed

lemma serial_45656: "excelDateToString rt (Fin 45656) = ''12/30/2024''"
proof -
  have "YearFromTime 1735516800000 = 2024" "DayWithinYear 1735516800000 = 364"
    "InLeapYear 1735516800000 = 1"
    using utc_fields [of 2024 1735516800000]
    by (simp_all add: Day_def msPerDay_def DayFromYear_def DaysInYear_def)
  then show ?thesis
    using parseDate_serial [of 45656 rt] by (simp add: field_defs msPerDay_def show_defs)
qed

lemma serial_45657: "excelDateToString rt (Fin 45657) = ''12/31/2024''"
proof -
  have "YearFromTime 1735603200000 = 2024" "DayWithinYear 1735603200000 = 365"
    "InLeapYear 1735603200000 = 1"
    using utc_fields [of 2024 1735603200000]
    by (simp_all add: Day_def msPerDay_def DayFromYear_def DaysInYear_def)
  then show ?thesis
    using parseDate_serial [of 45657 rt] by (simp add: field_defs msPerDay_def show_defs)
qed

lemma serial_45658: "excelDateToString rt (Fin 45658) = ''01/01/2025''"
proof -
  have "YearFromTime 1735689600000 = 2025" "DayWithinYear 1735689600000 = 0"
    "InLeapYear 1735689600000 = 0"
    using utc_fields [of 2025 1735689600000]
    by (simp_all add: Day_def msPerDay_def DayFromYear_def DaysInYear_def)
  then show ?thesis
    using parseDate_serial [of 45658 rt] by (simp add: field_defs msPerDay_def show_defs)
qed

lemma serial_45659: "excelDateToString rt (Fin 45659) = ''01/02/2025''"
proof -
  have "YearFromTime 1735776000000 = 2025" "DayWithinYear 1735776000000 = 1"
    "InLeapYear 1735776000000 = 0"
    using utc_fields [of 2025 1735776000000]
    by (simp_all add: Day_def msPerDay_def DayFromYear_def DaysInYear_def)
  then show ?thesis
    using parseDate_serial [of 45659 rt] by (simp add: field_defs msPerDay_def show_defs)
qed

lemma isShortTermGain_Some: "isShortTermGain (Some p) (Some s) = (s - p < 31536000000)"
  by (simp add: isShortTermGain_def getTime_def ONE_YEAR_MS_def)

lemma isShortTermGain_iff:
  "isShortTermGain pd sd =
     (\<exists>p s. getTime pd = Some p \<and> getTime sd = Some s \<and> s - p < 365 * 24 * 3600 * 1000)"
  by (cases pd; cases sd) (simp_all add: isShortTermGain_def getTime_def ONE_YEAR_MS_def)

text \<open>
  C1. The \<open>isShortTerm\<close> flag of a transaction is true exactly when both parsed dates are
  valid and the sell date is less than 365 * 24 * 3600 * 1000 milliseconds after the
  purchase date. A holding period of 364 days is short-term, one of 365 or 367 days is
  not: bought on 01/01/2024 (serial 45292), an asset sold on 12/30/2024 is short-term,
  and one sold on 12/31/2024, in the same calendar year, or on 01/02/2025 is long-term.
\<close>

theorem isShortTerm_fixed_threshold:
  "isShortTerm (rowTransaction rt columnMap row) =
     (\<exists>p s. getTime (parseDate rt (column columnMap ''purchaseDate'' row)) = Some p
          \<and> getTime (parseDate rt (column columnMap ''sellDate'' row)) = Some s
          \<and> s - p < 365 * 24 * 3600 * 1000)
   \<and> isShortTermGain pd sd =
     (\<exists>p s. getTime pd = Some p \<and> getTime sd = Some s
          \<and> s - p < 365 * 24 * 3600 * 1000)
   \<and> isShortTermGain (Some p0) (Some (p0 + 364 * msPerDay))
   \<and> \<not> isShortTermGain (Some p0) (Some (p0 + 365 * msPerDay))
   \<and> \<not> isShortTermGain (Some p0) (Some (p0 + 367 * msPerDay))
   \<and> excelDateToString rt (Fin 45292) = ''01/01/2024''
   \<and> excelDateToString rt (Fin 45656) = ''12/30/2024''
   \<and> excelDateToString rt (Fin 45657) = ''12/31/2024''
   \<and> excelDateToString rt (Fin 45659) = ''01/02/2025''
   \<and> isShortTermGain (parseDate rt (Num (Fin 45292))) (parseDate rt (Num (Fin 45656)))
   \<and> \<not> isShortTermGain (parseDate rt (Num (Fin 45292))) (parseDate rt (Num (Fin 45657)))
   \<and> \<not> isShortTermGain (parseDate rt (Num (Fin 45292))) (parseDate rt (Num (Fin 45659)))"
proof -
  have a: "isShortTerm (rowTransaction rt columnMap row) =
     isShortTermGain (parseDate rt (column columnMap ''purchaseDate'' row))
       (parseDate rt (column columnMap ''sellDate'' row))"
    by (simp add: rowTransaction_def Let_def)
  have b: "isShortTerm (rowTransaction rt columnMap row) =
     (\<exists>p s. getTime (parseDate rt (column columnMap ''purchaseDate'' row)) = Some p
          \<and> getTime (parseDate rt (column columnMap ''sellDate'' row)) = Some s
          \<and> s - p < 365 * 24 * 3600 * 1000)"
    unfolding a by (rule isShortTermGain_iff)
  have c: "isShortTermGain (Some p0) (Some (p0 + 364 * msPerDay))"
    "\<not> isShortTermGain (Some p0) (Some (p0 + 365 * msPerDay))"
    "\<not> isShortTermGain (Some p0) (Some (p0 + 367 * msPerDay))"
    by (simp_all add: isShortTermGain_Some msPerDay_def)
  have d: "excelDateToString rt (Fin 45292) = ''01/01/2024''"
    "excelDateToString rt (Fin 45656) = ''12/30/2024''"
    "excelDateToString rt (Fin 45657) = ''12/31/2024''"
    "excelDateToString rt (Fin 45659) = ''01/02/2025''"
    by (rule serial_45292 serial_45656 serial_45657 serial_45659)+
  have e: "isShortTermGain (parseDate rt (Num (Fin 45292))) (parseDate rt (Num (Fin 45656)))"
    "\<not> isShortTermGain (parseDate rt (Num (Fin 45292))) (parseDate rt (Num (Fin 45657)))"
    "\<not> isShortTermGain (parseDate rt (Num (Fin 45292))) (parseDate rt (Num (Fin 45659)))"
    using parseDate_serial [of 45292 rt] parseDate_serial [of 45656 rt]
      parseDate_serial [of 45657 rt] parseDate_serial [of 45659 rt]
    by (simp_all add: msPerDay_def isShortTermGain_Some)
  show ?thesis
    by (intro conjI) (rule b isShortTermGain_iff c d e)+
qed

lemma excelDateToString_runtime:
  "roundNearest rt' = roundNearest rt \<Longrightarrow> excelDateToString rt' serial = excelDateToString rt serial"
proof -
  assume r: "roundNearest rt' = roundNearest rt"
  have f: "fl rt' = fl rt"
    by (rule ext) (simp add: fl_def r)
  have "numPlus rt' a b = numPlus rt a b" for a b
    by (cases a; cases b; simp add: numPlus_def f)
  then have "numMinus rt' a b = numMinus rt a b" for a b
    by (simp add: numMinus_def)
  moreover have "numTimes rt' a b = numTimes rt a b" for a b
    by (cases a; cases b; simp add: numTimes_def f)
  ultimately show ?thesis
    by (simp add: excelDateToString_def)
qed

lemma excelDateToString_date:
  assumes "parseDate rt (Num serial) = Some t"
  shows "\<exists>y m d. excelDateToString rt serial =
             padStart 2 CHR ''0'' (showInt m) @ ''/'' @ padStart 2 CHR ''0'' (showInt d)
               @ ''/'' @ showInt y
           \<and> 1 \<le> m \<and> m \<le> 12 \<and> 1 \<le> d \<and> d \<le> daysInMonth y m \<and> civilDay y m d = Day t"
proof -
  have "excelDateToString rt serial =
      padStart 2 CHR ''0'' (showInt (MonthFromTime t + 1)) @ ''/''
        @ padStart 2 CHR ''0'' (showInt (DateFromTime t)) @ ''/'' @ showInt (YearFromTime t)"
    by (simp add: excelDateToString_cases assms)
  with civil_date [of t] show ?thesis by blast
qed

lemma Day_midnight: "Day (d * msPerDay) = d"
  by (simp add: Day_def msPerDay_def)

text \<open>
  C8 (amended). \<open>excelDateToString\<close> reads no state, no time zone and nothing of the
  runtime but its double arithmetic: two runtimes with the same rounding give the same
  string for the same serial. Let \<open>q\<close> be \<open>Math.floor\<close> of the double difference
  \<open>serial - 25569\<close>. When \<open>q\<close> is finite and of magnitude at most 100,000,000 the serial
  is taken to UTC midnight of the day \<open>q\<close> after the epoch, and the string is
  \<open>MM/DD/YYYY\<close> for the calendar date (month \<open>m\<close>, day \<open>d\<close>, year \<open>y\<close>) of that day.
  Otherwise, that is for \<open>NaN\<close>, an infinite serial or a day outside the range of
  \<open>Date\<close>, the date is invalid and the string is \<open>NaN/NaN/NaN\<close>. For a whole serial
  \<open>k\<close> with the day in range \<open>q\<close> is \<open>k - 25569\<close> exactly, and serial 45658 gives
  \<open>01/01/2025\<close>.
\<close>

theorem excelDateToString_pure:
  "(roundNearest rt' = roundNearest rt \<longrightarrow>
      excelDateToString rt' serial = excelDateToString rt serial)
   \<and> (case mathFloor (numMinus rt serial (Fin 25569)) of
        Fin q \<Rightarrow>
          (if \<bar>q\<bar> \<le> 100000000
           then parseDate rt (Num serial) = Some (\<lfloor>q\<rfloor> * msPerDay)
                \<and> (\<exists>y m d. excelDateToString rt serial =
                       padStart 2 CHR ''0'' (showInt m) @ ''/''
                         @ padStart 2 CHR ''0'' (showInt d) @ ''/'' @ showInt y
                     \<and> 1 \<le> m \<and> m \<le> 12 \<and> 1 \<le> d \<and> d \<le> daysInMonth y m
                     \<and> civilDay y m d = \<lfloor>q\<rfloor>)
           else parseDate rt (Num serial) = None
                \<and> excelDateToString rt serial = ''NaN/NaN/NaN'')
      | _ \<Rightarrow> parseDate rt (Num serial) = None
             \<and> excelDateToString rt serial = ''NaN/NaN/NaN'')
   \<and> (\<bar>k - 25569\<bar> \<le> 100000000 \<longrightarrow>
        mathFloor (numMinus rt (Fin (of_int k)) (Fin 25569)) = Fin (of_int (k - 25569)))
   \<and> excelDateToString rt (Fin 45658) = ''01/01/2025''"
proof (intro conjI impI)
  show "excelDateToString rt' serial = excelDateToString rt serial"
    if "roundNearest rt' = roundNearest rt"
    using that by (rule excelDateToString_runtime)
  show "mathFloor (numMinus rt (Fin (of_int k)) (Fin 25569)) = Fin (of_int (k - 25569))"
    if "\<bar>k - 25569\<bar> \<le> 100000000"
    using that by (intro serial_floor) simp
  show "excelDateToString rt (Fin 45658) = ''01/01/2025''"
    by (rule serial_45658)
  show "case mathFloor (numMinus rt serial (Fin 25569)) of
        Fin q \<Rightarrow>
          (if \<bar>q\<bar> \<le> 100000000
           then parseDate rt (Num serial) = Some (\<lfloor>q\<rfloor> * msPerDay)
                \<and> (\<exists>y m d. excelDateToString rt serial =
                       padStart 2 CHR ''0'' (showInt m) @ ''/''
                         @ padStart 2 CHR ''0'' (showInt d) @ ''/'' @ showInt y
                     \<and> 1 \<le> m \<and> m \<le> 12 \<and> 1 \<le> d \<and> d \<le> daysInMonth y m
                     \<and> civilDay y m d = \<lfloor>q\<rfloor>)
           else parseDate rt (Num serial) = None
                \<and> excelDateToString rt serial = ''NaN/NaN/NaN'')
      | _ \<Rightarrow> parseDate rt (Num serial) = None
             \<and> excelDateToString rt serial = ''NaN/NaN/NaN''"
  proof (cases "mathFloor (numMinus rt serial (Fin 25569))")
    case (Fin q)
    show ?thesis
    proof (cases "\<bar>q\<bar> \<le> 100000000")
      case True
      have p: "parseDate rt (Num serial) = Some (\<lfloor>q\<rfloor> * msPerDay)"
        by (simp add: parseDate_Num Fin True)
      from excelDateToString_date [OF p] show ?thesis
        unfolding Fin Day_midnight using True p by simp
    next
      case False
      have p: "parseDate rt (Num serial) = None"
        by (simp add: parseDate_Num Fin False)
      show ?thesis
        unfolding Fin using False p by (simp add: excelDateToString_cases)
    qed
  qed (simp_all add: parseDate_Num excelDateToString_cases)
qed

theorem excelDateToString_pure_witness:
  "roundNearest (exampleRuntime \<lparr> localTime := (\<lambda>t. t + 3600000),
        dateToString := (\<lambda>d. ''a date'') \<rparr>) = roundNearest exampleRuntime
   \<and> excelDateToString (exampleRuntime \<lparr> localTime := (\<lambda>t. t + 3600000),
        dateToString := (\<lambda>d. ''a date'') \<rparr>) (Fin 45658) = ''01/01/2025''
   \<and> \<bar>45658 - 25569\<bar> \<le> (100000000 :: int)
   \<and> mathFloor (numMinus exampleRuntime (Fin 45658) (Fin 25569)) = Fin 20089
   \<and> parseDate exampleRuntime (Num (Fin 45658)) = Some (20089 * msPerDay)
   \<and> civilDay 2025 1 1 = 20089"
proof -
  note th = excelDateToString_pure [of "exampleRuntime \<lparr> localTime := (\<lambda>t. t + 3600000),
        dateToString := (\<lambda>d. ''a date'') \<rparr>" exampleRuntime "Fin 45658" 45658]
  have f: "mathFloor (numMinus exampleRuntime (Fin 45658) (Fin 25569)) = Fin 20089"
    using th by simp
  have c: "civilDay 2025 1 1 = 20089"
    by (simp add: civilDay_def DayFromYear_def)
  from th show ?thesis
    unfolding f by (simp add: c)
qed

text \<open>
  Not every numeric serial gives a calendar date, and the day is not always
  \<open>\<lfloor>serial - 25569\<rfloor>\<close>: serial 100025570 is day 100000001, one day beyond the range
  of \<open>Date\<close>, and gives \<open>NaN/NaN/NaN\<close>, as does \<open>NaN\<close>; for the serial \<open>-2\<^sup>-\<^sup>7\<^sup>0\<close> the
  double difference is \<open>-25569\<close> and the string is \<open>12/30/1899\<close>, while the day
  \<open>\<lfloor>serial - 25569\<rfloor> = -25570\<close> is 12/29/1899.
\<close>

theorem excelDateToString_not_a_date:
  "excelDateToString exampleRuntime (Fin 100025570) = ''NaN/NaN/NaN''
   \<and> excelDateToString exampleRuntime NaN = ''NaN/NaN/NaN''
   \<and> excelDateToString exampleRuntime (Fin (- 1 / 2 ^ 70)) = ''12/30/1899''
   \<and> \<lfloor>(- 1 / 2 ^ 70 :: rat) - 25569\<rfloor> = - 25570
   \<and> civilDay 1899 12 29 = - 25570"
proof -
  have a: "mathFloor (numMinus exampleRuntime (Fin 100025570) (Fin 25569)) = Fin 100000001"
    using serial_floor [of 100025570 exampleRuntime] by simp
  have b: "mathFloor (numMinus exampleRuntime NaN (Fin 25569)) = NaN"
    by (simp add: mathFloor_def numMinus_def numPlus_def numNeg_def)
  have c: "mathFloor (numMinus exampleRuntime (Fin (- 1 / 2 ^ 70)) (Fin 25569)) = Fin (- 25569)"
    by code_simp
  have "YearFromTime (- 2209161600000) = 1899" "DayWithinYear (- 2209161600000) = 363"
    "InLeapYear (- 2209161600000) = 0"
    using utc_fields [of 1899 "- 2209161600000"]
    by (simp_all add: Day_def msPerDay_def DayFromYear_def DaysInYear_def)
  moreover have "parseDate exampleRuntime (Num (Fin (- 1 / 2 ^ 70))) = Some (- 2209161600000)"
    unfolding parseDate_Num c by (simp add: msPerDay_def)
  ultimately have d: "excelDateToString exampleRuntime (Fin (- 1 / 2 ^ 70)) = ''12/30/1899''"
    unfolding excelDateToString_cases
    by (simp add: MonthFromTime_def DateFromTime_def Let_def show_defs)
  have e: "\<lfloor>(- 1 / 2 ^ 70 :: rat) - 25569\<rfloor> = - 25570"
    by (simp add: floor_unique)
  have f: "civilDay 1899 12 29 = - 25570"
    by (simp add: civilDay_def DayFromYear_def daysInMonth_def DaysInYear_def upto_rec1)
  have a': "excelDateToString exampleRuntime (Fin 100025570) = ''NaN/NaN/NaN''"
    by (simp add: excelDateToString_cases parseDate_Num a)
  have b': "excelDateToString exampleRuntime NaN = ''NaN/NaN/NaN''"
    by (simp add: excelDateToString_cases parseDate_Num b)
  show ?thesis
    by (intro conjI) (rule a' b' d e f)+
qed

subsection \<open>Parsing the transactions\<close>

lemma parseRows_eq:
  "parseRows rt columnMap rows acc =
     acc @ map (rowTransaction rt columnMap)
             (filter (\<lambda>row. \<not> isEmpty (column columnMap ''quantity'' row)) rows)"
  by (induction rows arbitrary: acc) simp_all

text \<open>
  C7. On a non-empty row array the loop returns, in the order of the rows, one
  transaction for each row whose quantity cell is not empty (\<open>null\<close>, \<open>undefined\<close> or the
  empty string): a row with an empty quantity adds nothing and the rows after it are
  still read. When the columns of the first row are not detected there is no
  transaction at all.
\<close>

theorem parseTransactions_skips_empty_quantity:
  "parseTransactions rt (firstRow # rest) =
     Inr (case detectColumns firstRow of
            None \<Rightarrow> []
          | Some columnMap \<Rightarrow>
              map (rowTransaction rt columnMap)
                (filter (\<lambda>row. \<not> isEmpty (column columnMap ''quantity'' row)) (firstRow # rest)))"
  by (simp add: parseTransactions_def parseRows_eq split: option.splits)

subsection \<open>Validation and dispatch\<close>

text \<open>
  C9. With \<open>validate\<close> set or not, a parser returns the same \<open>formIds\<close> and the same
  \<open>formsData\<close> (or throws the same error), directly and through the registry: the flag
  only selects the \<open>validation\<close> component. The validators take the forms data and
  return a validation result; they have no way to change a field map.
\<close>

theorem validate_flag_frame:
  "map_sum id (\<lambda>r. (formIds r, formsData r)) (parse parser rt rows (options\<lparr>validate := True\<rparr>))
     = map_sum id (\<lambda>r. (formIds r, formsData r)) (parse parser rt rows (options\<lparr>validate := False\<rparr>))
   \<and> map_sum id (\<lambda>r. (formIds r, formsData r))
         (ParserRegistry_parse parsers rt sheetName rows (options\<lparr>validate := True\<rparr>))
     = map_sum id (\<lambda>r. (formIds r, formsData r))
         (ParserRegistry_parse parsers rt sheetName rows (options\<lparr>validate := False\<rparr>))"
proof -
  have a: "map_sum id (\<lambda>r. (formIds r, formsData r)) (F8949_parse rt rows (options\<lparr>validate := True\<rparr>))
     = map_sum id (\<lambda>r. (formIds r, formsData r)) (F8949_parse rt rows (options\<lparr>validate := False\<rparr>))"
    by (simp add: F8949_parse_def createParseResult_def Let_def split: sum.splits)
  have b: "map_sum id (\<lambda>r. (formIds r, formsData r)) (F1040_parse rt rows (options\<lparr>validate := True\<rparr>))
     = map_sum id (\<lambda>r. (formIds r, formsData r)) (F1040_parse rt rows (options\<lparr>validate := False\<rparr>))"
    by (auto simp: F1040_parse_def createParseResult_def Let_def split: list.splits)
  have c: "map_sum id (\<lambda>r. (formIds r, formsData r)) (parse p rt rows (options\<lparr>validate := True\<rparr>))
     = map_sum id (\<lambda>r. (formIds r, formsData r)) (parse p rt rows (options\<lparr>validate := False\<rparr>))" for p
    using a b by (cases p) (simp_all add: parse_def)
  show ?thesis
    using c by (simp add: ParserRegistry_parse_def split: option.splits)
qed

lemma find_None_all: "list_all (\<lambda>p. \<not> P p) xs \<Longrightarrow> find P xs = None"
  by (induction xs) auto

text \<open>
  C6. When no registered parser accepts the sheet name, the registry returns (it does
  not throw) no form id, no forms data and exactly one error, of field \<open>sheet\<close>, whose
  message ends with the sheet name. A parser accepts a name when its lower-cased form
  is equal to one of the parser's two aliases: \<open>F8949\<close> is accepted by the 8949 parser,
  which the registry then runs; a name with a trailing blank or a longer name that
  contains an alias is not accepted.
\<close>

theorem registry_unknown_sheet:
  "(list_all (\<lambda>p. \<not> canParse p sheetName) parsers \<longrightarrow>
      ParserRegistry_parse parsers rt sheetName rows options =
        Inr \<lparr> formIds = [], formsData = [],
              validation = \<lparr> isValid = False,
                             errors = [\<lparr> field = ''sheet'',
                                         message = ''No parser found for sheet: '' @ sheetName,
                                         severity = ''error'' \<rparr>],
                             warnings = [] \<rparr> \<rparr>)
   \<and> canParse F8949Parser sheetName =
       (toLowerCase sheetName = ''f8949'' \<or> toLowerCase sheetName = ''8949'')
   \<and> canParse F1040Parser sheetName =
       (toLowerCase sheetName = ''f1040'' \<or> toLowerCase sheetName = ''1040'')
   \<and> canParse F8949Parser ''F8949'' \<and> canParse F8949Parser ''f8949''
   \<and> \<not> canParse F8949Parser ''F8949 '' \<and> \<not> canParse F8949Parser ''form 8949''
   \<and> findParser parserRegistry ''F8949'' = Some F8949Parser
   \<and> ParserRegistry_parse parserRegistry rt ''F8949'' rows options = F8949_parse rt rows options"
proof -
  have a: "canParse F8949Parser ''F8949''" "canParse F8949Parser ''f8949''"
    "\<not> canParse F8949Parser ''F8949 ''" "\<not> canParse F8949Parser ''form 8949''"
    by code_simp+
  have b: "findParser parserRegistry ''F8949'' = Some F8949Parser"
    using a(1) by (simp add: findParser_def parserRegistry_def)
  show ?thesis
    using a b
    by (simp add: ParserRegistry_parse_def findParser_def find_None_all parse_def)
       (simp add: canParse_def)
qed

theorem registry_unknown_sheet_witness:
  "\<not> canParse F8949Parser ''unknown_sheet'' \<and> \<not> canParse F1040Parser ''unknown_sheet''
   \<and> ParserRegistry_parse parserRegistry exampleRuntime ''unknown_sheet'' []
       \<lparr> year = 2025, validate = True, skipEmptyRows = True \<rparr> =
        Inr \<lparr> formIds = [], formsData = [],
              validation = \<lparr> isValid = False,
                             errors = [\<lparr> field = ''sheet'',
                                         message = ''No parser found for sheet: unknown_sheet'',
                                         severity = ''error'' \<rparr>],
                             warnings = [] \<rparr> \<rparr>"
proof -
  have n: "\<not> canParse F8949Parser ''unknown_sheet''" "\<not> canParse F1040Parser ''unknown_sheet''"
    by code_simp+
  then have "list_all (\<lambda>p. \<not> canParse p ''unknown_sheet'') parserRegistry"
    by (simp add: parserRegistry_def)
  with n show ?thesis
    using registry_unknown_sheet [of "''unknown_sheet''" parserRegistry exampleRuntime "[]"
        "\<lparr> year = 2025, validate = True, skipEmptyRows = True \<rparr>"]
    by simp
qed

subsection \<open>The line-oriented pipeline\<close>

text \<open>
  On a row whose variable cell is empty, the loop of \<open>parseColumnFormat\<close> goes on to the
  next row when \<open>skipEmptyRows\<close> is set and stops otherwise; the loop of
  \<open>parseSimpleFormat\<close> stops, whatever the option.
\<close>

lemma columnRows_empty_variable:
  "isEmpty (cellAt row variableCol) \<Longrightarrow>
     columnRows rt variableCol valueCol skip mapping (row # rows) fieldValues =
       (if skip then columnRows rt variableCol valueCol skip mapping rows fieldValues
        else fieldValues)"
  by simp

lemma simpleRows_empty_variable:
  "isEmpty (cellAt row variableCol) \<Longrightarrow>
     simpleRows rt variableCol valueCol mapping (row # rows) fieldValues = fieldValues"
  by simp

text \<open>
  C5. Three rows under the headers \<open>Variable\<close> and \<open>Value\<close>, the second with an empty
  variable, parsed with \<open>skipEmptyRows\<close> set: the headers are the keys of the rows, so
  the parser takes the two-column fallback, which stops at the second row and never
  reads \<open>Line 1b\<close>. The labelled loop, on the same rows and with the same option, skips
  the second row and reads both lines.
\<close>

theorem parseSimpleFormat_ignores_skipEmptyRows:
  "F1040_parse exampleRuntime
     [[(''Variable'', Str ''Line 1a''), (''Value'', Str ''100'')],
      [(''Variable'', Str ''''), (''Value'', Str '''')],
      [(''Variable'', Str ''Line 1b''), (''Value'', Str ''200'')]]
     \<lparr> year = 2025, validate = False, skipEmptyRows = True \<rparr>
   = Inr \<lparr> formIds = [''f1040''],
           formsData = [(''f1040'', [(''topmostSubform[0].Page1[0].f1_47[0]'', Str ''100'')])],
           validation = \<lparr> isValid = True, errors = [], warnings = [] \<rparr> \<rparr>
   \<and> parseColumnFormat exampleRuntime
     [[(''Variable'', Str ''Line 1a''), (''Value'', Str ''100'')],
      [(''Variable'', Str ''''), (''Value'', Str '''')],
      [(''Variable'', Str ''Line 1b''), (''Value'', Str ''200'')]]
     (getF1040Mapping 2025) [] True
   = [(''topmostSubform[0].Page1[0].f1_47[0]'', Str ''100''),
      (''topmostSubform[0].Page1[0].f1_48[0]'', Str ''200'')]"
  by code_simp

subsection \<open>Objects\<close>

lemma get_set_prop:
  "get_prop (set_prop k v ob) k' = (if k' = k then Some v else get_prop ob k')"
  by (induction ob) (auto simp: get_prop_def)

lemma keys_set_prop: "set (keys (set_prop k v ob)) = insert k (set (keys ob))"
  by (induction ob) (auto simp: keys_def)

lemma set_prop_new: "k \<notin> set (keys ob) \<Longrightarrow> set_prop k v ob = ob @ [(k, v)]"
  by (induction ob) (auto simp: keys_def)

lemma distinct_set_prop: "distinct (keys ob) \<Longrightarrow> distinct (keys (set_prop k v ob))"
proof (induction ob)
  case Nil
  show ?case by (simp add: keys_def)
next
  case (Cons p ps)
  then show ?case
    using keys_set_prop [of k v ps] by (auto simp: keys_def)
qed

lemma get_prop_None_iff: "get_prop ob k = None \<longleftrightarrow> k \<notin> set (keys ob)"
  by (simp add: get_prop_def keys_def map_of_eq_None_iff)

lemma get_fold_set_prop:
  "get_prop (fold (\<lambda>(k, v). set_prop k v) xs ob) k =
     (case map_of (rev xs) k of None \<Rightarrow> get_prop ob k | Some v \<Rightarrow> Some v)"
proof (induction xs arbitrary: ob)
  case Nil
  show ?case by simp
next
  case (Cons x xs)
  obtain a b where x: "x = (a, b)" by (cases x)
  show ?case
    by (auto simp: Cons x get_set_prop map_add_def split: option.splits)
qed

lemma keys_fold_set_prop:
  "set (keys (fold (\<lambda>(k, v). set_prop k v) xs ob)) = set (keys ob) \<union> fst ` set xs"
  by (induction xs arbitrary: ob) (auto simp: keys_set_prop)

lemma distinct_fold_set_prop:
  "distinct (keys ob) \<Longrightarrow> distinct (keys (fold (\<lambda>(k, v). set_prop k v) xs ob))"
  by (induction xs arbitrary: ob) (auto simp: distinct_set_prop)

lemma map_of_rev_distinct: "distinct (map fst xs) \<Longrightarrow> map_of (rev xs) = map_of xs"
  by (subst map_of_inject_set) (simp_all add: rev_map [symmetric])

lemma get_spread2:
  assumes "distinct (keys a)" "distinct (keys b)"
  shows "get_prop (spread2 a b) k =
           (case get_prop b k of None \<Rightarrow> get_prop a k | Some v \<Rightarrow> Some v)"
proof -
  have r: "map_of (rev b) = map_of b" "map_of (rev a) = map_of a"
    using assms by (simp_all add: map_of_rev_distinct keys_def)
  have "get_prop (fold (\<lambda>(k, v). set_prop k v) a []) k =
      (case map_of (rev a) k of None \<Rightarrow> get_prop [] k | Some v \<Rightarrow> Some v)"
    by (rule get_fold_set_prop)
  also have "\<dots> = get_prop a k"
    by (simp add: r get_prop_def split: option.splits)
  finally have inner: "get_prop (fold (\<lambda>(k, v). set_prop k v) a []) k = get_prop a k" .
  have "get_prop (spread2 a b) k =
      (case map_of (rev b) k of
         None \<Rightarrow> get_prop (fold (\<lambda>(k, v). set_prop k v) a []) k
       | Some v \<Rightarrow> Some v)"
    unfolding spread2_def fold_append o_apply by (rule get_fold_set_prop)
  then show ?thesis
    unfolding inner r by (simp add: get_prop_def)
qed

lemma keys_spread2: "set (keys (spread2 a b)) = set (keys a) \<union> set (keys b)"
  by (simp add: spread2_def keys_fold_set_prop) (simp add: keys_def)

lemma distinct_spread2: "distinct (keys (spread2 a b))"
  unfolding spread2_def by (rule distinct_fold_set_prop) (simp add: keys_def)

lemma spread2_commute:
  assumes "distinct (keys a)" "distinct (keys b)" "set (keys a) \<inter> set (keys b) = {}"
  shows "get_prop (spread2 a b) = get_prop (spread2 b a)"
proof
  fix k
  have "get_prop a k = None \<or> get_prop b k = None"
    using assms(3) by (auto simp: get_prop_None_iff)
  then show "get_prop (spread2 a b) k = get_prop (spread2 b a) k"
    using assms(1,2) by (auto simp: get_spread2 split: option.splits)
qed

subsection \<open>Decimal numerals\<close>

lemma digitChar_in: "n < 10 \<Longrightarrow> digitChar n \<in> set ''0123456789''"
  unfolding digitChar_def by (rule nth_mem) simp

lemma digitChar_inj: "m < 10 \<Longrightarrow> n < 10 \<Longrightarrow> digitChar m = digitChar n \<Longrightarrow> m = n"
  unfolding digitChar_def by (subst (asm) nth_eq_iff_index_eq) simp_all

lemma showNat_digits: "set (showNat n) \<subseteq> set ''0123456789''"
proof (induction n rule: showNat.induct)
  case (1 n)
  show ?case
  proof (cases "n < 10")
    case True
    then show ?thesis
      using digitChar_in [of n] by (subst showNat.simps) simp
  next
    case False
    then show ?thesis
      using 1 digitChar_in [of "n mod 10"] by (subst showNat.simps) simp
  qed
qed

lemma showNat_nonempty: "showNat n \<noteq> []"
  by (subst showNat.simps) simp

lemma showNat_inj: "showNat m = showNat n \<Longrightarrow> m = n"
proof (induction m arbitrary: n rule: showNat.induct)
  case (1 m)
  show ?case
  proof (cases "m < 10")
    case m: True
    show ?thesis
    proof (cases "n < 10")
      case True
      with m 1(2) show ?thesis
        by (simp add: showNat.simps [of m] showNat.simps [of n] digitChar_inj)
    next
      case False
      with m 1(2) show ?thesis
        using showNat_nonempty [of "n div 10"]
        by (simp add: showNat.simps [of m] showNat.simps [of n])
    qed
  next
    case m: False
    show ?thesis
    proof (cases "n < 10")
      case True
      with m 1(2) show ?thesis
        using showNat_nonempty [of "m div 10"]
        by (simp add: showNat.simps [of m] showNat.simps [of n])
    next
      case False
      with m 1(2) have "showNat (m div 10) = showNat (n div 10)"
        and "digitChar (m mod 10) = digitChar (n mod 10)"
        by (simp_all add: showNat.simps [of m] showNat.simps [of n])
      then have "m div 10 = n div 10" "m mod 10 = n mod 10"
        using 1(1) m by (simp_all add: digitChar_inj)
      then show ?thesis
        by (metis div_mult_mod_eq)
    qed
  qed
qed

lemma split_at_char:
  "c \<notin> set a \<Longrightarrow> c \<notin> set a' \<Longrightarrow> a @ c # b = a' @ c # b' \<Longrightarrow> a = a' \<and> b = b'"
proof (induction a arbitrary: a')
  case Nil
  then show ?case by (cases a') auto
next
  case (Cons x a)
  then show ?case by (cases a') auto
qed

lemma underscore_not_digit: "CHR ''_'' \<notin> set (showNat n)"
  using showNat_digits [of n] by auto

lemma cellKey_inj:
  "cellKey p i j = cellKey p' i' j' \<Longrightarrow> p = p' \<and> i = i' \<and> j = j'"
proof -
  assume e: "cellKey p i j = cellKey p' i' j'"
  then have p: "p = p'"
    by (cases p; cases p') (simp_all add: cellKey_def prefixStr_def)
  with e have "showNat i @ CHR ''_'' # (CHR ''c'' # showNat j)
      = showNat i' @ CHR ''_'' # (CHR ''c'' # showNat j')"
    by (simp add: cellKey_def)
  then have "showNat i = showNat i' \<and> CHR ''c'' # showNat j = CHR ''c'' # showNat j'"
    by (rule split_at_char [OF underscore_not_digit underscore_not_digit])
  with p show ?thesis
    by (auto dest: showNat_inj)
qed


lemma fold_set_miss_inner:
  assumes "\<And>j. j \<in> set js \<Longrightarrow> key j \<noteq> K"
  shows "get_prop (fold (\<lambda>j. set_prop (key j) (val j)) js m) K = get_prop m K"
  using assms by (induction js arbitrary: m) (auto simp: get_set_prop)

lemma fold_set_hit_inner:
  assumes "\<And>j'. j' \<in> set js \<Longrightarrow> key j' = key j \<Longrightarrow> j' = j"
    and "j \<in> set js"
  shows "get_prop (fold (\<lambda>j. set_prop (key j) (val j)) js m) (key j) = Some (val j)"
  using assms
proof (induction js arbitrary: m)
  case Nil
  then show ?case by simp
next
  case (Cons a js)
  show ?case
  proof (cases "j \<in> set js")
    case True
    then show ?thesis using Cons by simp
  next
    case False
    with Cons.prems have a: "a = j" by simp
    have "get_prop (fold (\<lambda>j. set_prop (key j) (val j)) js (set_prop (key j) (val j) m)) (key j)
        = get_prop (set_prop (key j) (val j) m) (key j)"
      using Cons.prems(1) False by (intro fold_set_miss_inner) auto
    then show ?thesis
      by (simp add: a get_set_prop)
  qed
qed

lemma fold_set_miss:
  assumes "\<And>i j. i \<in> set is \<Longrightarrow> j \<in> set js \<Longrightarrow> key i j \<noteq> K"
  shows "get_prop (fold (\<lambda>i. fold (\<lambda>j. set_prop (key i j) (val i j)) js) is m) K = get_prop m K"
  using assms
proof (induction "is" arbitrary: m)
  case Nil
  show ?case by simp
next
  case (Cons a "is")
  have "get_prop (fold (\<lambda>j. set_prop (key a j) (val a j)) js m) K = get_prop m K"
    using Cons.prems by (intro fold_set_miss_inner) auto
  then show ?case
    using Cons by simp
qed

lemma fold_set_hit:
  assumes "\<And>i' j'. key i' j' = key i j \<Longrightarrow> i' = i \<and> j' = j"
    and "i \<in> set is" "j \<in> set js"
  shows "get_prop (fold (\<lambda>i. fold (\<lambda>j. set_prop (key i j) (val i j)) js) is m) (key i j)
           = Some (val i j)"
  using assms(2)
proof (induction "is" arbitrary: m)
  case Nil
  then show ?case by simp
next
  case (Cons a "is")
  show ?case
  proof (cases "i \<in> set is")
    case True
    then show ?thesis using Cons by simp
  next
    case False
    with Cons.prems have a: "a = i" by simp
    let ?m = "fold (\<lambda>j. set_prop (key i j) (val i j)) js m"
    have "get_prop (fold (\<lambda>i. fold (\<lambda>j. set_prop (key i j) (val i j)) js) is ?m) (key i j)
        = get_prop ?m (key i j)"
      using False assms(1) by (intro fold_set_miss) auto
    also have "\<dots> = Some (val i j)"
      using assms(1,3) by (intro fold_set_hit_inner) auto
    finally show ?thesis
      by (simp add: a)
  qed
qed

lemma shortTermCell_set:
  "shortTermCell i j =
     set_prop (cellKey ST i j)
       (''topmostSubform[0].Page1[0].Table_Line1_Part1[0].Row'' @ showNat (i + 1)
          @ ''[0].f1_'' @ paddedNum (8 * i + j + 3) @ ''[0]'')"
  by (rule ext) (simp add: shortTermCell_def cellKey_def prefixStr_def)

lemma longTermCell_set:
  "longTermCell i j =
     set_prop (cellKey LT i j)
       (''topmostSubform[0].Page2[0].Table_Line1_Part2[0].Row'' @ showNat (i + 1)
          @ ''[0].f2_'' @ paddedNum (8 * i + j + 3) @ ''[0]'')"
  by (rule ext) (simp add: longTermCell_def cellKey_def prefixStr_def)

lemma cellKey_not_total:
  "cellKey p i j \<noteq> ''st_total_proceed''" "cellKey p i j \<noteq> ''st_total_cost''"
  "cellKey p i j \<noteq> ''st_total_adj''" "cellKey p i j \<noteq> ''st_total_gl''"
  "cellKey p i j \<noteq> ''lt_total_proceed''" "cellKey p i j \<noteq> ''lt_total_cost''"
  "cellKey p i j \<noteq> ''lt_total_adj''" "cellKey p i j \<noteq> ''lt_total_gl''"
  by (cases p; simp add: cellKey_def prefixStr_def)+

lemma mapping_short:
  assumes "i < 14" "j < 8"
  shows "get_prop generateF8949Mapping (cellKey ST i j) =
           Some (''topmostSubform[0].Page1[0].Table_Line1_Part1[0].Row'' @ showNat (i + 1)
                   @ ''[0].f1_'' @ paddedNum (8 * i + j + 3) @ ''[0]'')"
proof -
  have miss: "get_prop (fold (\<lambda>i. fold (\<lambda>j. longTermCell i j) [0..<8]) [0..<14] m) (cellKey ST i j)
      = get_prop m (cellKey ST i j)" for m
    unfolding longTermCell_set by (rule fold_set_miss) (auto dest: cellKey_inj)
  have hit: "get_prop (fold (\<lambda>i. fold (\<lambda>j. shortTermCell i j) [0..<8]) [0..<14] m) (cellKey ST i j)
      = Some (''topmostSubform[0].Page1[0].Table_Line1_Part1[0].Row'' @ showNat (i + 1)
                   @ ''[0].f1_'' @ paddedNum (8 * i + j + 3) @ ''[0]'')" for m
    unfolding shortTermCell_set
    using assms by (intro fold_set_hit [where key = "cellKey ST"]) (auto dest: cellKey_inj)
  show ?thesis
    unfolding generateF8949Mapping_def Let_def
    by (simp only: get_set_prop cellKey_not_total if_False miss hit)
qed

lemma mapping_long:
  assumes "i < 14" "j < 8"
  shows "get_prop generateF8949Mapping (cellKey LT i j) =
           Some (''topmostSubform[0].Page2[0].Table_Line1_Part2[0].Row'' @ showNat (i + 1)
                   @ ''[0].f2_'' @ paddedNum (8 * i + j + 3) @ ''[0]'')"
proof -
  have hit: "get_prop (fold (\<lambda>i. fold (\<lambda>j. longTermCell i j) [0..<8]) [0..<14] m) (cellKey LT i j)
      = Some (''topmostSubform[0].Page2[0].Table_Line1_Part2[0].Row'' @ showNat (i + 1)
                   @ ''[0].f2_'' @ paddedNum (8 * i + j + 3) @ ''[0]'')" for m
    unfolding longTermCell_set
    using assms by (intro fold_set_hit [where key = "cellKey LT"]) (auto dest: cellKey_inj)
  show ?thesis
    unfolding generateF8949Mapping_def Let_def
    by (simp only: get_set_prop cellKey_not_total if_False hit)
qed

lemma total_not_cellKey:
  "''st_total_proceed'' \<noteq> cellKey p i j" "''st_total_cost'' \<noteq> cellKey p i j"
  "''st_total_adj'' \<noteq> cellKey p i j" "''st_total_gl'' \<noteq> cellKey p i j"
  "''lt_total_proceed'' \<noteq> cellKey p i j" "''lt_total_cost'' \<noteq> cellKey p i j"
  "''lt_total_adj'' \<noteq> cellKey p i j" "''lt_total_gl'' \<noteq> cellKey p i j"
  using cellKey_not_total [of p i j] by (simp_all add: eq_commute del: cellKey_not_total)

lemma fold_long_total:
  assumes "\<And>i j. K \<noteq> cellKey LT i j"
  shows "get_prop (fold (\<lambda>i. fold (\<lambda>j. longTermCell i j) [0..<8]) [0..<14] m) K = get_prop m K"
  unfolding longTermCell_set using assms by (intro fold_set_miss) (auto simp: eq_commute)

lemma fold_short_total:
  assumes "\<And>i j. K \<noteq> cellKey ST i j"
  shows "get_prop (fold (\<lambda>i. fold (\<lambda>j. shortTermCell i j) [0..<8]) [0..<14] m) K = get_prop m K"
  unfolding shortTermCell_set using assms by (intro fold_set_miss) (auto simp: eq_commute)

lemma mapping_totals:
  "get_prop generateF8949Mapping ''st_total_proceed'' = Some ''topmostSubform[0].Page1[0].f1_91[0]''"
  "get_prop generateF8949Mapping ''st_total_cost'' = Some ''topmostSubform[0].Page1[0].f1_92[0]''"
  "get_prop generateF8949Mapping ''st_total_adj'' = Some ''topmostSubform[0].Page1[0].f1_94[0]''"
  "get_prop generateF8949Mapping ''st_total_gl'' = Some ''topmostSubform[0].Page1[0].f1_95[0]''"
  "get_prop generateF8949Mapping ''lt_total_proceed'' = Some ''topmostSubform[0].Page2[0].f2_91[0]''"
  "get_prop generateF8949Mapping ''lt_total_cost'' = Some ''topmostSubform[0].Page2[0].f2_92[0]''"
  "get_prop generateF8949Mapping ''lt_total_adj'' = Some ''topmostSubform[0].Page2[0].f2_94[0]''"
  "get_prop generateF8949Mapping ''lt_total_gl'' = Some ''topmostSubform[0].Page2[0].f2_95[0]''"
  unfolding generateF8949Mapping_def Let_def
  by (simp_all add: get_set_prop fold_long_total fold_short_total total_not_cellKey)

lemma getF8949Mapping_eq: "getF8949Mapping taxYear = generateF8949Mapping"
  by (simp add: getF8949Mapping_def f8949Mappings_def f8949_2025_def)

subsection \<open>Chunks\<close>

lemma chunkForEach_totals:
  "totalProceeds (chunkForEach rt p m idx chunk s) =
     foldl (numPlus rt) (totalProceeds s) (map sellPrice chunk)"
  "totalCost (chunkForEach rt p m idx chunk s) =
     foldl (numPlus rt) (totalCost s) (map purchasePrice chunk)"
  "totalGainLoss (chunkForEach rt p m idx chunk s) =
     foldl (numPlus rt) (totalGainLoss s)
       (map (\<lambda>t. numMinus rt (numMinus rt (sellPrice t) (purchasePrice t)) (adjustment t)) chunk)"
  "totalAdjustment (chunkForEach rt p m idx chunk s) =
     foldl (numPlus rt) (totalAdjustment s) (map adjustment chunk)"
  by (induction chunk arbitrary: idx s; simp add: addTransaction_def Let_def)+

lemma cell_in: "j < 8 \<Longrightarrow> mapped m (cellKey p idx j) \<in> (\<lambda>j. mapped m (cellKey p idx j)) ` {..<(8::nat)}"
  by simp

lemma addTransaction_keys:
  "set (keys (formData (addTransaction rt p m idx t s)))
     \<subseteq> set (keys (formData s)) \<union> (\<lambda>j. mapped m (cellKey p idx j)) ` {..<8}"
proof -
  have c: "mapped m (cellKey p idx j) \<in> set (keys (formData s)) \<union> (\<lambda>j. mapped m (cellKey p idx j)) ` {..<8}"
    if "j < 8" for j
    using that by simp
  have i: "x \<in> B \<Longrightarrow> A \<subseteq> B \<Longrightarrow> insert x A \<subseteq> B" for x :: string and A B
    by simp
  show ?thesis
    unfolding addTransaction_def Let_def chunkState.simps keys_set_prop if_distrib [of "\<lambda>x. set (keys x)"]
    by (intro i c conjI impI subset_refl Un_upper1 | simp only: keys_set_prop split: if_split)+
qed

lemma addTransaction_distinct:
  "distinct (keys (formData s)) \<Longrightarrow> distinct (keys (formData (addTransaction rt p m idx t s)))"
  by (simp add: addTransaction_def Let_def distinct_set_prop)

lemma chunkForEach_keys:
  "set (keys (formData (chunkForEach rt p m idx chunk s)))
     \<subseteq> set (keys (formData s))
        \<union> (\<lambda>(i, j). mapped m (cellKey p i j)) ` ({idx..<idx + length chunk} \<times> {..<8})"
proof (induction chunk arbitrary: idx s)
  case Nil
  show ?case by simp
next
  case (Cons t chunk)
  have "set (keys (formData (chunkForEach rt p m (Suc idx) chunk (addTransaction rt p m idx t s))))
      \<subseteq> set (keys (formData (addTransaction rt p m idx t s)))
        \<union> (\<lambda>(i, j). mapped m (cellKey p i j)) ` ({Suc idx..<Suc idx + length chunk} \<times> {..<8})"
    by (rule Cons.IH)
  also have "\<dots> \<subseteq> set (keys (formData s))
        \<union> (\<lambda>(i, j). mapped m (cellKey p i j)) ` ({idx..<idx + length (t # chunk)} \<times> {..<8})"
    using addTransaction_keys [of rt p m idx t s] by force
  finally show ?case by simp
qed

lemma chunkForEach_distinct:
  "distinct (keys (formData s)) \<Longrightarrow> distinct (keys (formData (chunkForEach rt p m idx chunk s)))"
  by (induction chunk arbitrary: idx s) (simp_all add: addTransaction_distinct)

lemma chunkFormData_distinct: "distinct (keys (chunkFormData rt p m chunk))"
  unfolding chunkFormData_def Let_def
  by (intro distinct_set_prop chunkForEach_distinct) (simp add: keys_def)

lemma chunkFormData_keys:
  "set (keys (chunkFormData rt p m chunk))
     \<subseteq> (\<lambda>(i, j). mapped m (cellKey p i j)) ` ({..<length chunk} \<times> {..<8})
        \<union> {mapped m (prefixStr p @ ''_total_proceed''), mapped m (prefixStr p @ ''_total_cost''),
            mapped m (prefixStr p @ ''_total_gl''), mapped m (prefixStr p @ ''_total_adj'')}"
proof -
  let ?s0 = "\<lparr> formData = [], totalProceeds = Fin 0, totalCost = Fin 0,
                  totalGainLoss = Fin 0, totalAdjustment = Fin 0 \<rparr>"
  have "set (keys (formData (chunkForEach rt p m 0 chunk ?s0)))
      \<subseteq> (\<lambda>(i, j). mapped m (cellKey p i j)) ` ({..<length chunk} \<times> {..<8})"
    using chunkForEach_keys [of rt p m 0 chunk ?s0] by (simp add: keys_def lessThan_atLeast0)
  then show ?thesis
    by (auto simp: chunkFormData_def Let_def keys_set_prop)
qed

lemma ceil14:
  fixes n :: nat
  obtains q r where "(n + 13) div 14 = q" "n + 13 = 14 * q + r" "r < 14"
proof -
  have "n + 13 = 14 * ((n + 13) div 14) + (n + 13) mod 14" by simp
  moreover have "(n + 13) mod 14 < 14" by simp
  ultimately show ?thesis using that by blast
qed

lemma chunks_cover: "n \<le> 14 * ((n + 13) div 14)" for n :: nat
proof -
  obtain q r where q: "(n + 13) div 14 = q" "n + 13 = 14 * q + r" "r < 14"
    by (rule ceil14)
  show ?thesis unfolding q(1) using q(2,3) by linarith
qed

lemma chunk_start: "k < (n + 13) div 14 \<Longrightarrow> 14 * k < n" for k n :: nat
proof -
  obtain q r where q: "(n + 13) div 14 = q" "n + 13 = 14 * q + r" "r < 14"
    by (rule ceil14)
  assume "k < (n + 13) div 14"
  then have "k < q" unfolding q(1) .
  with q(2,3) show ?thesis by linarith
qed

lemma chunks_step: "i < n \<Longrightarrow> (n - i + 13) div 14 = Suc ((n - (i + 14) + 13) div 14)" for i n :: nat
proof (cases "n - i < 14")
  case True
  assume "i < n"
  with True have "(n - i + 13) div 14 = 1"
    by (intro div_nat_eqI) simp_all
  moreover from True have "n - (i + 14) = 0" by simp
  ultimately show ?thesis by simp
next
  case False
  define a where "a = n - (i + 14) + 13"
  have "n - i + 13 = a + 14" using False by (simp add: a_def)
  then have "(n - i + 13) div 14 = (a + 14) div 14" by (rule arg_cong)
  also have "\<dots> = Suc (a div 14)" by simp
  finally show ?thesis by (simp only: a_def)
qed

lemma chunkLoop_eq:
  "chunkLoop rt ts p m i chunks =
     chunks @ map (\<lambda>k. chunkFormData rt p m (take 14 (drop (i + 14 * k) ts)))
                [0..<(length ts - i + 13) div 14]"
proof (induction rt ts p m i chunks rule: chunkLoop.induct)
  case (1 rt ts p m i chunks)
  show ?case
  proof (cases "i < length ts")
    case True
    then have n: "(length ts - i + 13) div 14 = Suc ((length ts - (i + 14) + 13) div 14)"
      by (rule chunks_step)
    have "chunkLoop rt ts p m i chunks =
        chunkLoop rt ts p m (i + 14) (chunks @ [chunkFormData rt p m (take 14 (drop i ts))])"
      using True by (subst chunkLoop.simps) (simp add: MAX_ROWS_PER_FORM_def slice_def)
    also have "\<dots> = (chunks @ [chunkFormData rt p m (take 14 (drop i ts))])
        @ map (\<lambda>k. chunkFormData rt p m (take 14 (drop (i + 14 + 14 * k) ts)))
            [0..<(length ts - (i + 14) + 13) div 14]"
      using 1 True by (simp add: MAX_ROWS_PER_FORM_def slice_def)
    finally show ?thesis
      unfolding n map_upt_Suc by (simp add: add.assoc del: upt_Suc)
  next
    case False
    then show ?thesis
      by (subst chunkLoop.simps) simp
  qed
qed

lemma chunkTransactions_eq:
  "chunkTransactions rt ts p m =
     map (\<lambda>k. chunkFormData rt p m (take 14 (drop (14 * k) ts))) [0..<(length ts + 13) div 14]"
  by (simp add: chunkTransactions_def chunkLoop_eq)

lemma concat_takes:
  "concat (map (\<lambda>k. take c (drop (c * k) xs)) [0..<n]) = take (c * n) xs"
proof (induction n)
  case 0
  show ?case by simp
next
  case (Suc n)
  have "take (c * n) xs @ take c (drop (c * n) xs) = take (c * n + c) xs"
    by (simp add: take_add)
  with Suc show ?case by (simp add: add.commute)
qed

lemma concat_chunks:
  "concat (map (\<lambda>k. take 14 (drop (14 * k) ts)) [0..<(length ts + 13) div 14]) = ts"
proof -
  have "length ts \<le> 14 * ((length ts + 13) div 14)" by (rule chunks_cover)
  then show ?thesis by (simp add: concat_takes)
qed

lemma chunk_length:
  assumes "k < (length ts + 13) div 14"
  shows "take 14 (drop (14 * k) ts) \<noteq> []" "length (take 14 (drop (14 * k) ts)) \<le> 14"
proof -
  have "14 * k < length ts" using assms by (rule chunk_start)
  then show "take 14 (drop (14 * k) ts) \<noteq> []" by simp
  show "length (take 14 (drop (14 * k) ts)) \<le> 14" by simp
qed

lemma mapped_totals:
  "mapped generateF8949Mapping (prefixStr p @ ''_total_proceed'') =
     (case p of ST \<Rightarrow> ''topmostSubform[0].Page1[0].f1_91[0]'' | LT \<Rightarrow> ''topmostSubform[0].Page2[0].f2_91[0]'')"
  "mapped generateF8949Mapping (prefixStr p @ ''_total_cost'') =
     (case p of ST \<Rightarrow> ''topmostSubform[0].Page1[0].f1_92[0]'' | LT \<Rightarrow> ''topmostSubform[0].Page2[0].f2_92[0]'')"
  "mapped generateF8949Mapping (prefixStr p @ ''_total_gl'') =
     (case p of ST \<Rightarrow> ''topmostSubform[0].Page1[0].f1_95[0]'' | LT \<Rightarrow> ''topmostSubform[0].Page2[0].f2_95[0]'')"
  "mapped generateF8949Mapping (prefixStr p @ ''_total_adj'') =
     (case p of ST \<Rightarrow> ''topmostSubform[0].Page1[0].f1_94[0]'' | LT \<Rightarrow> ''topmostSubform[0].Page2[0].f2_94[0]'')"
  by (cases p; simp add: mapped_def prefixStr_def mapping_totals)+

lemma chunkFormData_totals:
  "get_prop (chunkFormData rt p generateF8949Mapping chunk)
       (mapped generateF8949Mapping (prefixStr p @ ''_total_proceed''))
     = Some (Num (foldl (numPlus rt) (Fin 0) (map sellPrice chunk)))"
  "get_prop (chunkFormData rt p generateF8949Mapping chunk)
       (mapped generateF8949Mapping (prefixStr p @ ''_total_cost''))
     = Some (Num (foldl (numPlus rt) (Fin 0) (map purchasePrice chunk)))"
  "get_prop (chunkFormData rt p generateF8949Mapping chunk)
       (mapped generateF8949Mapping (prefixStr p @ ''_total_gl''))
     = Some (Num (foldl (numPlus rt) (Fin 0)
         (map (\<lambda>t. numMinus rt (numMinus rt (sellPrice t) (purchasePrice t)) (adjustment t))
            chunk)))"
  "get_prop (chunkFormData rt p generateF8949Mapping chunk)
       (mapped generateF8949Mapping (prefixStr p @ ''_total_adj''))
     = Some (Num (foldl (numPlus rt) (Fin 0) (map adjustment chunk)))"
  by (cases p; simp add: chunkFormData_def Let_def get_set_prop mapped_totals chunkForEach_totals)+

text \<open>
  C2 (amended). With the mapping of the parser, \<open>chunkTransactions\<close> returns one field map
  for each run of 14 transactions, in order: the runs are not empty, have at most 14
  members and put together give the sequence back. The field map of a run is built
  from that run alone, and its four totals fields hold the sums, in double arithmetic,
  of the sale price, the purchase price, the gain or loss (the double differences
  (sale price - purchase price) - adjustment) and the adjustment: the values of the
  run are added one by one, in order, to a total that starts at 0, and each addition
  rounds. Twenty transactions give two runs, of 14 and of 6.
\<close>

theorem chunkTransactions_partition:
  "(let forms = chunkTransactions rt transactions p (getF8949Mapping taxYear);
        chunk = (\<lambda>k. take 14 (drop (14 * k) transactions));
        total = (\<lambda>k suffix. get_prop (forms ! k)
                   (mapped (getF8949Mapping taxYear) (prefixStr p @ suffix)));
        doubleSum = (\<lambda>xs. foldl (numPlus rt) (Fin 0) xs)
    in length forms = (length transactions + 13) div 14
       \<and> concat (map chunk [0..<length forms]) = transactions
       \<and> (\<forall>k < length forms.
             chunk k \<noteq> [] \<and> length (chunk k) \<le> 14
             \<and> forms ! k = chunkFormData rt p (getF8949Mapping taxYear) (chunk k)
             \<and> total k ''_total_proceed'' = Some (Num (doubleSum (map sellPrice (chunk k))))
             \<and> total k ''_total_cost'' = Some (Num (doubleSum (map purchasePrice (chunk k))))
             \<and> total k ''_total_gl'' =
                 Some (Num (doubleSum
                   (map (\<lambda>t. numMinus rt (numMinus rt (sellPrice t) (purchasePrice t))
                               (adjustment t))
                      (chunk k))))
             \<and> total k ''_total_adj'' = Some (Num (doubleSum (map adjustment (chunk k)))))
       \<and> (length transactions = 20 \<longrightarrow>
             length forms = 2 \<and> length (chunk 0) = 14 \<and> length (chunk 1) = 6))"
proof -
  have "length (chunkTransactions rt transactions p generateF8949Mapping)
      = (length transactions + 13) div 14"
    by (simp add: chunkTransactions_eq)
  moreover have "chunkTransactions rt transactions p generateF8949Mapping ! k
      = chunkFormData rt p generateF8949Mapping (take 14 (drop (14 * k) transactions))"
    if "k < (length transactions + 13) div 14" for k
    using that by (simp add: chunkTransactions_eq)
  ultimately show ?thesis
    unfolding Let_def getF8949Mapping_eq
    by (simp add: concat_chunks chunk_length chunkFormData_totals not_le chunk_start)
qed

theorem chunkTransactions_partition_witness:
  "length twentyTransactions = 20
   \<and> length (chunkTransactions exampleRuntime twentyTransactions ST (getF8949Mapping 2025)) = 2
   \<and> length (take 14 (drop 0 twentyTransactions)) = 14
   \<and> length (take 14 (drop 14 twentyTransactions)) = 6
   \<and> get_prop (chunkTransactions exampleRuntime twentyTransactions ST (getF8949Mapping 2025) ! 0)
        ''topmostSubform[0].Page1[0].f1_91[0]'' = Some (Num (Fin 91))
   \<and> get_prop (chunkTransactions exampleRuntime twentyTransactions ST (getF8949Mapping 2025) ! 1)
        ''topmostSubform[0].Page1[0].f1_91[0]'' = Some (Num (Fin 99))
   \<and> get_prop (chunkTransactions exampleRuntime twentyTransactions ST (getF8949Mapping 2025) ! 0)
        ''topmostSubform[0].Page1[0].f1_92[0]'' = Some (Num (Fin 140))
   \<and> get_prop (chunkTransactions exampleRuntime twentyTransactions ST (getF8949Mapping 2025) ! 1)
        ''topmostSubform[0].Page1[0].f1_92[0]'' = Some (Num (Fin 60))
   \<and> get_prop (chunkTransactions exampleRuntime twentyTransactions ST (getF8949Mapping 2025) ! 0)
        ''topmostSubform[0].Page1[0].f1_95[0]'' = Some (Num (Fin (- 63)))
   \<and> get_prop (chunkTransactions exampleRuntime twentyTransactions ST (getF8949Mapping 2025) ! 1)
        ''topmostSubform[0].Page1[0].f1_95[0]'' = Some (Num (Fin 33))
   \<and> get_prop (chunkTransactions exampleRuntime twentyTransactions ST (getF8949Mapping 2025) ! 0)
        ''topmostSubform[0].Page1[0].f1_94[0]'' = Some (Num (Fin 14))
   \<and> get_prop (chunkTransactions exampleRuntime twentyTransactions ST (getF8949Mapping 2025) ! 1)
        ''topmostSubform[0].Page1[0].f1_94[0]'' = Some (Num (Fin 6))"
proof -
  let ?forms = "chunkTransactions exampleRuntime twentyTransactions ST (getF8949Mapping 2025)"
  let ?rt = exampleRuntime
  have len: "length twentyTransactions = 20"
    by (simp add: twentyTransactions_def)
  note th = chunkTransactions_partition [of exampleRuntime twentyTransactions ST 2025,
      unfolded Let_def]
  from th len have n: "length ?forms = 2" by simp
  have s: "foldl (numPlus ?rt) (Fin 0)
       (map sellPrice (take 14 (drop (14 * 0) twentyTransactions))) = Fin 91"
    "foldl (numPlus ?rt) (Fin 0)
       (map sellPrice (take 14 (drop (14 * 1) twentyTransactions))) = Fin 99"
    "foldl (numPlus ?rt) (Fin 0)
       (map purchasePrice (take 14 (drop (14 * 0) twentyTransactions))) = Fin 140"
    "foldl (numPlus ?rt) (Fin 0)
       (map purchasePrice (take 14 (drop (14 * 1) twentyTransactions))) = Fin 60"
    "foldl (numPlus ?rt) (Fin 0)
       (map (\<lambda>t. numMinus ?rt (numMinus ?rt (sellPrice t) (purchasePrice t)) (adjustment t))
          (take 14 (drop (14 * 0) twentyTransactions))) = Fin (- 63)"
    "foldl (numPlus ?rt) (Fin 0)
       (map (\<lambda>t. numMinus ?rt (numMinus ?rt (sellPrice t) (purchasePrice t)) (adjustment t))
          (take 14 (drop (14 * 1) twentyTransactions))) = Fin 33"
    "foldl (numPlus ?rt) (Fin 0)
       (map adjustment (take 14 (drop (14 * 0) twentyTransactions))) = Fin 14"
    "foldl (numPlus ?rt) (Fin 0)
       (map adjustment (take 14 (drop (14 * 1) twentyTransactions))) = Fin 6"
    by code_simp+
  have m: "mapped (getF8949Mapping 2025) (prefixStr ST @ ''_total_proceed'') = ''topmostSubform[0].Page1[0].f1_91[0]''"
    "mapped (getF8949Mapping 2025) (prefixStr ST @ ''_total_cost'') = ''topmostSubform[0].Page1[0].f1_92[0]''"
    "mapped (getF8949Mapping 2025) (prefixStr ST @ ''_total_gl'') = ''topmostSubform[0].Page1[0].f1_95[0]''"
    "mapped (getF8949Mapping 2025) (prefixStr ST @ ''_total_adj'') = ''topmostSubform[0].Page1[0].f1_94[0]''"
    by (simp_all add: getF8949Mapping_eq mapped_totals)
  from th n have k0: "0 < length ?forms" and k1: "1 < length ?forms" by simp_all
  from th have all: "\<forall>k<length ?forms.
      get_prop (?forms ! k) (mapped (getF8949Mapping 2025) (prefixStr ST @ ''_total_proceed''))
        = Some (Num (foldl (numPlus ?rt) (Fin 0)
            (map sellPrice (take 14 (drop (14 * k) twentyTransactions)))))
      \<and> get_prop (?forms ! k) (mapped (getF8949Mapping 2025) (prefixStr ST @ ''_total_cost''))
        = Some (Num (foldl (numPlus ?rt) (Fin 0)
            (map purchasePrice (take 14 (drop (14 * k) twentyTransactions)))))
      \<and> get_prop (?forms ! k) (mapped (getF8949Mapping 2025) (prefixStr ST @ ''_total_gl''))
        = Some (Num (foldl (numPlus ?rt) (Fin 0)
            (map (\<lambda>t. numMinus ?rt (numMinus ?rt (sellPrice t) (purchasePrice t)) (adjustment t))
               (take 14 (drop (14 * k) twentyTransactions)))))
      \<and> get_prop (?forms ! k) (mapped (getF8949Mapping 2025) (prefixStr ST @ ''_total_adj''))
        = Some (Num (foldl (numPlus ?rt) (Fin 0)
            (map adjustment (take 14 (drop (14 * k) twentyTransactions)))))"
    by blast
  from all [rule_format, OF k0] all [rule_format, OF k1] len n show ?thesis
    unfolding s m by simp
qed

text \<open>
  The totals are not the exact sums: for the sale prices \<open>2\<^sup>5\<^sup>3\<close> and 1, whose sum is
  9007199254740993, the total of the proceeds is \<open>2\<^sup>5\<^sup>3 = 9007199254740992\<close>, the double
  nearest to the sum.
\<close>

theorem chunkTransactions_total_rounds:
  "map sellPrice largeAndSmall = [Fin 9007199254740992, Fin 1]
   \<and> length (chunkTransactions exampleRuntime largeAndSmall ST (getF8949Mapping 2025)) = 1
   \<and> get_prop (chunkTransactions exampleRuntime largeAndSmall ST (getF8949Mapping 2025) ! 0)
        ''topmostSubform[0].Page1[0].f1_91[0]'' = Some (Num (Fin 9007199254740992))
   \<and> 9007199254740992 + 1 = (9007199254740993 :: rat)"
proof -
  have a: "map sellPrice largeAndSmall = [Fin 9007199254740992, Fin 1]"
    by (simp add: largeAndSmall_def)
  have l: "length largeAndSmall = 2"
    by (simp add: largeAndSmall_def)
  have f: "chunkTransactions exampleRuntime largeAndSmall ST (getF8949Mapping 2025)
      = [chunkFormData exampleRuntime ST generateF8949Mapping largeAndSmall]"
    by (simp add: chunkTransactions_eq getF8949Mapping_eq l)
  have m: "mapped generateF8949Mapping (prefixStr ST @ ''_total_proceed'')
      = ''topmostSubform[0].Page1[0].f1_91[0]''"
    by (simp add: mapped_totals)
  have s: "foldl (numPlus exampleRuntime) (Fin 0) [Fin 9007199254740992, Fin 1]
      = Fin 9007199254740992"
    by code_simp
  have "get_prop (chunkFormData exampleRuntime ST generateF8949Mapping largeAndSmall)
      ''topmostSubform[0].Page1[0].f1_91[0]'' = Some (Num (Fin 9007199254740992))"
    using chunkFormData_totals(1) [of exampleRuntime ST largeAndSmall]
    unfolding m a s .
  then show ?thesis
    by (simp add: a f)
qed

subsection \<open>Combined forms\<close>

lemma fold_set_fresh:
  assumes "distinct (map key xs)" "set (map key xs) \<inter> set (keys ob) = {}"
  shows "fold (\<lambda>i. set_prop (key i) (val i)) xs ob = ob @ map (\<lambda>i. (key i, val i)) xs"
  using assms
proof (induction xs arbitrary: ob)
  case Nil
  show ?case by simp
next
  case (Cons a xs)
  have new: "set_prop (key a) (val a) ob = ob @ [(key a, val a)]"
    using Cons.prems(2) by (intro set_prop_new) auto
  have "fold (\<lambda>i. set_prop (key i) (val i)) xs (ob @ [(key a, val a)])
      = (ob @ [(key a, val a)]) @ map (\<lambda>i. (key i, val i)) xs"
    using Cons.prems by (intro Cons.IH) (auto simp: keys_def)
  then show ?case
    by (simp add: new)
qed

lemma combineForms_eq:
  "combineForms s l =
     map (\<lambda>i. (''f8949_'' @ showNat (i + 1), spread2 (formOrEmpty s i) (formOrEmpty l i)))
       [0..<max (length s) (length l)]"
proof -
  have "distinct (map (\<lambda>i. ''f8949_'' @ showNat (i + 1)) [0..<n])" for n
    by (auto simp: distinct_map inj_on_def dest: showNat_inj)
  then show ?thesis
    unfolding combineForms_def Let_def
    by (subst fold_set_fresh) (simp_all add: keys_def)
qed

lemma mapped_short:
  "i < 14 \<Longrightarrow> j < 8 \<Longrightarrow>
     \<exists>r. mapped generateF8949Mapping (cellKey ST i j) = ''topmostSubform[0].Page1'' @ r"
  by (simp add: mapped_def mapping_short)

lemma mapped_long:
  "i < 14 \<Longrightarrow> j < 8 \<Longrightarrow>
     \<exists>r. mapped generateF8949Mapping (cellKey LT i j) = ''topmostSubform[0].Page2'' @ r"
  by (simp add: mapped_def mapping_long)

lemma chunk_keys_page:
  assumes "length chunk \<le> 14" "k \<in> set (keys (chunkFormData rt p generateF8949Mapping chunk))"
  shows "\<exists>r. k = ''topmostSubform[0].Page'' @ (case p of ST \<Rightarrow> ''1'' | LT \<Rightarrow> ''2'') @ r"
proof -
  consider i j where "i < length chunk" "j < 8" "k = mapped generateF8949Mapping (cellKey p i j)"
    | "k \<in> {mapped generateF8949Mapping (prefixStr p @ ''_total_proceed''),
             mapped generateF8949Mapping (prefixStr p @ ''_total_cost''),
             mapped generateF8949Mapping (prefixStr p @ ''_total_gl''),
             mapped generateF8949Mapping (prefixStr p @ ''_total_adj'')}"
    using chunkFormData_keys [of rt p generateF8949Mapping chunk] assms(2) by auto
  then show ?thesis
  proof cases
    case 1
    then have "i < 14" using assms(1) by simp
    then show ?thesis
      using 1(2,3) mapped_short [of i j] mapped_long [of i j] by (cases p) auto
  next
    case 2
    then show ?thesis
      by (cases p) (auto simp: mapped_totals)
  qed
qed

lemma formOrEmpty_chunk:
  "formOrEmpty (chunkTransactions rt ts p m) i = [] \<or>
     (\<exists>chunk. length chunk \<le> 14 \<and> formOrEmpty (chunkTransactions rt ts p m) i = chunkFormData rt p m chunk)"
proof (cases "i < length (chunkTransactions rt ts p m)")
  case True
  then have "formOrEmpty (chunkTransactions rt ts p m) i
      = chunkFormData rt p m (take 14 (drop (14 * i) ts))"
    by (simp add: formOrEmpty_def chunkTransactions_eq)
  moreover have "length (take 14 (drop (14 * i) ts)) \<le> 14" by simp
  ultimately show ?thesis by blast
next
  case False
  then show ?thesis by (simp add: formOrEmpty_def)
qed

lemma formOrEmpty_keys_page:
  assumes "k \<in> set (keys (formOrEmpty (chunkTransactions rt ts p generateF8949Mapping) i))"
  shows "\<exists>r. k = ''topmostSubform[0].Page'' @ (case p of ST \<Rightarrow> ''1'' | LT \<Rightarrow> ''2'') @ r"
proof -
  have "formOrEmpty (chunkTransactions rt ts p generateF8949Mapping) i \<noteq> []"
    using assms by (auto simp: keys_def)
  with formOrEmpty_chunk [of rt ts p generateF8949Mapping i]
  obtain chunk where c: "length chunk \<le> 14"
    "formOrEmpty (chunkTransactions rt ts p generateF8949Mapping) i
       = chunkFormData rt p generateF8949Mapping chunk"
    by blast
  from assms have "k \<in> set (keys (chunkFormData rt p generateF8949Mapping chunk))"
    unfolding c(2) .
  with c(1) show ?thesis by (rule chunk_keys_page)
qed

lemma formOrEmpty_distinct:
  "distinct (keys (formOrEmpty (chunkTransactions rt ts p m) i))"
  using formOrEmpty_chunk [of rt ts p m i] chunkFormData_distinct [of rt p m]
  by (auto simp: keys_def)

lemma forms_disjoint:
  "set (keys (formOrEmpty (chunkTransactions rt sts ST generateF8949Mapping) i))
     \<inter> set (keys (formOrEmpty (chunkTransactions rt lts LT generateF8949Mapping) i')) = {}"
proof -
  have False
    if "k \<in> set (keys (formOrEmpty (chunkTransactions rt sts ST generateF8949Mapping) i))"
      and "k \<in> set (keys (formOrEmpty (chunkTransactions rt lts LT generateF8949Mapping) i'))"
    for k
    using formOrEmpty_keys_page [OF that(1)] formOrEmpty_keys_page [OF that(2)] by auto
  then show ?thesis by auto
qed

text \<open>
  C3. For the chunk sequences that \<open>chunkTransactions\<close> makes of any short-term and any
  long-term transactions, \<open>combineForms\<close> returns exactly \<open>max m n\<close> instances, keyed
  \<open>f8949_1\<close> to \<open>f8949_max\<close> in this order. Instance \<open>i\<close> is the spread of the short-term
  form \<open>i - 1\<close> and the long-term form \<open>i - 1\<close>, the empty object standing for a form that
  is absent: its keys are the keys of the two, and it reads a key from the long-term
  form when that has it and from the short-term form otherwise. The keys of a short-term
  form and of a long-term form never meet (the first all start with
  \<open>topmostSubform[0].Page1\<close>, the second with \<open>topmostSubform[0].Page2\<close>), so the spread
  in the other order reads the same.
\<close>

theorem combineForms_union:
  "(let shortTermForms = chunkTransactions rt shortTerm ST (getF8949Mapping taxYear);
        longTermForms = chunkTransactions rt longTerm LT (getF8949Mapping taxYear);
        data = combineForms shortTermForms longTermForms;
        n = max (length shortTermForms) (length longTermForms)
    in keys data = map (\<lambda>i. ''f8949_'' @ showNat (i + 1)) [0..<n]
       \<and> (\<forall>i<n. let a = formOrEmpty shortTermForms i; b = formOrEmpty longTermForms i
              in get_prop data (''f8949_'' @ showNat (i + 1)) = Some (spread2 a b)
                 \<and> set (keys (spread2 a b)) = set (keys a) \<union> set (keys b)
                 \<and> (\<forall>k. get_prop (spread2 a b) k =
                          (case get_prop b k of None \<Rightarrow> get_prop a k | Some v \<Rightarrow> Some v))
                 \<and> set (keys a) \<inter> set (keys b) = {}
                 \<and> get_prop (spread2 a b) = get_prop (spread2 b a)))"
proof -
  let ?S = "chunkTransactions rt shortTerm ST generateF8949Mapping"
  let ?L = "chunkTransactions rt longTerm LT generateF8949Mapping"
  let ?n = "max (length ?S) (length ?L)"
  let ?key = "\<lambda>i. ''f8949_'' @ showNat (i + 1)"
  have k: "keys (combineForms ?S ?L) = map ?key [0..<?n]"
    by (simp add: combineForms_eq keys_def comp_def)
  have d: "distinct (map fst (combineForms ?S ?L))"
    unfolding k [unfolded keys_def]
    by (auto simp: distinct_map inj_on_def dest: showNat_inj)
  have g: "get_prop (combineForms ?S ?L) (?key i)
      = Some (spread2 (formOrEmpty ?S i) (formOrEmpty ?L i))" if "i < ?n" for i
    unfolding get_prop_def map_of_eq_Some_iff [OF d]
    using that by (auto simp: combineForms_eq intro!: image_eqI [where x = i])
  show ?thesis
    unfolding Let_def getF8949Mapping_eq
  proof (intro conjI allI impI, goal_cases)
    case 1
    show ?case by (rule k)
  next
    case (2 i)
    then show ?case by (rule g)
  next
    case (3 i)
    show ?case by (rule keys_spread2)
  next
    case (4 i k)
    show ?case by (rule get_spread2; rule formOrEmpty_distinct)
  next
    case (5 i)
    show ?case by (rule forms_disjoint)
  next
    case (6 i)
    show ?case by (rule spread2_commute; (rule formOrEmpty_distinct | rule forms_disjoint))
  qed
qed

theorem combineForms_union_witness:
  "keys (combineForms
           (chunkTransactions exampleRuntime twentyTransactions ST (getF8949Mapping 2025))
           (chunkTransactions exampleRuntime (take 3 twentyTransactions) LT (getF8949Mapping 2025)))
     = [''f8949_1'', ''f8949_2'']
   \<and> get_prop (combineForms
           (chunkTransactions exampleRuntime twentyTransactions ST (getF8949Mapping 2025))
           (chunkTransactions exampleRuntime (take 3 twentyTransactions) LT (getF8949Mapping 2025)))
         ''f8949_1''
     = Some (spread2
               (chunkTransactions exampleRuntime twentyTransactions ST (getF8949Mapping 2025) ! 0)
               (chunkTransactions exampleRuntime (take 3 twentyTransactions) LT (getF8949Mapping 2025) ! 0))
   \<and> get_prop (combineForms
           (chunkTransactions exampleRuntime twentyTransactions ST (getF8949Mapping 2025))
           (chunkTransactions exampleRuntime (take 3 twentyTransactions) LT (getF8949Mapping 2025)))
         ''f8949_2''
     = Some (spread2
               (chunkTransactions exampleRuntime twentyTransactions ST (getF8949Mapping 2025) ! 1) [])
   \<and> set (keys (spread2
               (chunkTransactions exampleRuntime twentyTransactions ST (getF8949Mapping 2025) ! 1) []))
     = set (keys (chunkTransactions exampleRuntime twentyTransactions ST (getF8949Mapping 2025) ! 1))
   \<and> set (keys (chunkTransactions exampleRuntime twentyTransactions ST (getF8949Mapping 2025) ! 0))
       \<inter> set (keys (chunkTransactions exampleRuntime (take 3 twentyTransactions) LT
                       (getF8949Mapping 2025) ! 0)) = {}"
proof -
  let ?S = "chunkTransactions exampleRuntime twentyTransactions ST (getF8949Mapping 2025)"
  let ?L = "chunkTransactions exampleRuntime (take 3 twentyTransactions) LT (getF8949Mapping 2025)"
  have len: "length ?S = 2" "length ?L = 1"
    by (simp_all add: chunkTransactions_eq twentyTransactions_def)
  have f: "formOrEmpty ?S 0 = ?S ! 0" "formOrEmpty ?S (Suc 0) = ?S ! 1"
    "formOrEmpty ?L 0 = ?L ! 0" "formOrEmpty ?L (Suc 0) = []"
    by (simp_all add: formOrEmpty_def len)
  have n: "showNat (Suc 0) = ''1''" "showNat (Suc (Suc 0)) = ''2''"
    by (simp_all add: showNat.simps digitChar_def)
  have m: "max (2::nat) 1 = 2" by simp
  note th = combineForms_union [of exampleRuntime twentyTransactions 2025 "take 3 twentyTransactions",
      unfolded Let_def len m]
  have u: "[0..<2] = [0, Suc 0]" by (simp add: upt_rec)
  from th have k: "keys (combineForms ?S ?L) = map (\<lambda>i. ''f8949_'' @ showNat (i + 1)) [0..<2]"
    by (rule conjunct1)
  from th have a: "\<forall>i<2. get_prop (combineForms ?S ?L) (''f8949_'' @ showNat (i + 1))
        = Some (spread2 (formOrEmpty ?S i) (formOrEmpty ?L i))
      \<and> set (keys (spread2 (formOrEmpty ?S i) (formOrEmpty ?L i)))
          = set (keys (formOrEmpty ?S i)) \<union> set (keys (formOrEmpty ?L i))
      \<and> set (keys (formOrEmpty ?S i)) \<inter> set (keys (formOrEmpty ?L i)) = {}"
    by blast
  have a0: "0 < (2::nat)" and a1: "Suc 0 < (2::nat)" by simp_all
  have e: "set (keys ([] :: VariableMap)) = {}" by (simp add: keys_def)
  from a [rule_format, OF a0] a [rule_format, OF a1] k [unfolded u] show ?thesis
    by (simp add: f n e)
qed

lemma mapping_row_14:
  "get_prop generateF8949Mapping (cellKey p 14 j) = None"
proof -
  have "get_prop (fold (\<lambda>i. fold (\<lambda>j. longTermCell i j) [0..<8]) [0..<14] m) (cellKey p 14 j)
      = get_prop m (cellKey p 14 j)" for m
    unfolding longTermCell_set by (rule fold_set_miss) (auto dest: cellKey_inj)
  moreover have "get_prop (fold (\<lambda>i. fold (\<lambda>j. shortTermCell i j) [0..<8]) [0..<14] m) (cellKey p 14 j)
      = get_prop m (cellKey p 14 j)" for m
    unfolding shortTermCell_set by (rule fold_set_miss) (auto dest: cellKey_inj)
  ultimately show ?thesis
    unfolding generateF8949Mapping_def Let_def
    by (simp only: get_set_prop cellKey_not_total if_False) (simp add: get_prop_def)
qed

text \<open>
  C10. The table generated for 2025, which \<open>getF8949Mapping\<close> returns for every year, has
  an entry for each logical key \<open>st_\<close>/\<open>lt_\<close> \<open>r{i}_c{j}\<close> with \<open>i < 14\<close> and \<open>j < 8\<close> and for
  the four totals keys of each prefix; it has none for row 14. A chunk has at most 14
  transactions, so every lookup of \<open>chunkTransactions\<close> finds an entry, and no field map
  it returns has the key \<open>undefined\<close>.
\<close>

theorem mapping_covers_emitted_keys:
  "(\<forall>i<14. \<forall>j<8. get_prop f8949_2025 (cellKey p i j) \<noteq> None)
   \<and> get_prop f8949_2025 (prefixStr p @ ''_total_proceed'') \<noteq> None
   \<and> get_prop f8949_2025 (prefixStr p @ ''_total_cost'') \<noteq> None
   \<and> get_prop f8949_2025 (prefixStr p @ ''_total_gl'') \<noteq> None
   \<and> get_prop f8949_2025 (prefixStr p @ ''_total_adj'') \<noteq> None
   \<and> get_prop f8949_2025 (cellKey p 14 j) = None
   \<and> getF8949Mapping taxYear = f8949_2025
   \<and> (\<forall>form \<in> set (chunkTransactions rt transactions p (getF8949Mapping taxYear)).
         ''undefined'' \<notin> set (keys form))"
proof -
  have cells: "get_prop generateF8949Mapping (cellKey p i j) \<noteq> None" if "i < 14" "j < 8" for i j
    using that mapping_short [of i j] mapping_long [of i j] by (cases p) simp_all
  have totals: "get_prop generateF8949Mapping (prefixStr p @ ''_total_proceed'') \<noteq> None"
    "get_prop generateF8949Mapping (prefixStr p @ ''_total_cost'') \<noteq> None"
    "get_prop generateF8949Mapping (prefixStr p @ ''_total_gl'') \<noteq> None"
    "get_prop generateF8949Mapping (prefixStr p @ ''_total_adj'') \<noteq> None"
    by (cases p; simp add: prefixStr_def mapping_totals)+
  have "''undefined'' \<notin> set (keys form)"
    if "form \<in> set (chunkTransactions rt transactions p generateF8949Mapping)" for form
  proof
    assume u: "''undefined'' \<in> set (keys form)"
    from that obtain x
      where "form = chunkFormData rt p generateF8949Mapping (take 14 (drop (14 * x) transactions))"
      by (auto simp: chunkTransactions_eq)
    moreover have "length (take 14 (drop (14 * x) transactions)) \<le> 14" by simp
    ultimately show False
      using u chunk_keys_page [of "take 14 (drop (14 * x) transactions)" "''undefined''" rt p]
      by (cases p) auto
  qed
  with cells totals show ?thesis
    by (simp add: f8949_2025_def getF8949Mapping_eq mapping_row_14)
qed

theorem mapping_covers_emitted_keys_witness:
  "get_prop f8949_2025 (cellKey ST 13 7) \<noteq> None
   \<and> get_prop f8949_2025 (cellKey LT 0 0) \<noteq> None
   \<and> ''undefined'' \<notin> set (keys (chunkTransactions exampleRuntime twentyTransactions ST
                                     (getF8949Mapping 2025) ! 1))"
proof -
  have "length (chunkTransactions exampleRuntime twentyTransactions ST (getF8949Mapping 2025)) = 2"
    by (simp add: chunkTransactions_eq twentyTransactions_def)
  then have "chunkTransactions exampleRuntime twentyTransactions ST (getF8949Mapping 2025) ! 1
      \<in> set (chunkTransactions exampleRuntime twentyTransactions ST (getF8949Mapping 2025))"
    by simp
  then show ?thesis
    using mapping_covers_emitted_keys [of ST 0 2025 exampleRuntime twentyTransactions]
      mapping_covers_emitted_keys [of LT 0 2025 exampleRuntime twentyTransactions]
    by simp
qed

subsection \<open>Inputs that yield nothing\<close>

lemma chunks_nonempty:
  assumes "xs \<noteq> []"
  shows "0 < (length xs + 13) div 14"
proof -
  obtain q r where q: "(length xs + 13) div 14 = q" "length xs + 13 = 14 * q + r" "r < 14"
    by (rule ceil14)
  have "0 < length xs" using assms by simp
  with q(2,3) have "0 < q" by (cases q) simp_all
  then show ?thesis unfolding q(1) .
qed

lemma length_combineForms:
  "length (keys (combineForms s l)) = max (length s) (length l)"
  by (simp add: combineForms_eq keys_def)

lemma length_chunkTransactions:
  "length (chunkTransactions rt ts p m) = (length ts + 13) div 14"
  by (simp only: chunkTransactions_eq length_map length_upt diff_zero)

lemma combineForms_nonempty:
  assumes "ts \<noteq> []"
  shows "keys (combineForms (chunkTransactions rt (filter isShortTerm ts) ST m)
                 (chunkTransactions rt (filter (\<lambda>t. \<not> isShortTerm t) ts) LT m)) \<noteq> []"
proof -
  let ?S = "chunkTransactions rt (filter isShortTerm ts) ST m"
  let ?L = "chunkTransactions rt (filter (\<lambda>t. \<not> isShortTerm t) ts) LT m"
  have "0 < max (length ?S) (length ?L)"
  proof (cases "filter isShortTerm ts = []")
    case False
    then have "0 < length ?S"
      unfolding length_chunkTransactions by (rule chunks_nonempty)
    then show ?thesis by (simp only: less_max_iff_disj simp_thms)
  next
    case True
    then have "filter (\<lambda>t. \<not> isShortTerm t) ts = ts"
      by (simp only: filter_empty_conv filter_id_conv)
    with assms have "filter (\<lambda>t. \<not> isShortTerm t) ts \<noteq> []" by simp
    then have "0 < length ?L"
      unfolding length_chunkTransactions by (rule chunks_nonempty)
    then show ?thesis by (simp only: less_max_iff_disj simp_thms)
  qed
  then have "0 < length (keys (combineForms ?S ?L))"
    by (simp only: length_combineForms)
  then show ?thesis by simp
qed

text \<open>
  C4, as amended. The 8949 parser returns no form id, no forms data and an invalid
  result with one error both on an empty row array (\<open>No data found in sheet\<close>) and when
  the rows yield no transaction (\<open>No valid transactions found\<close>); with at least one
  transaction it returns at least one form id. The 1040 parser does the same on an
  empty row array only. On any other input it returns the form id \<open>f1040\<close> with the field
  map it extracted, empty or not: an empty field map is the error
  \<open>No data found for Form 1040\<close> of the validator, which runs when \<open>validate\<close> is set, and
  without validation the result is valid.
\<close>

theorem empty_input_error:
  "F8949_parse rt [] options =
     Inr \<lparr> formIds = [], formsData = [],
           validation = \<lparr> isValid = False,
                          errors = [\<lparr> field = ''sheet'', message = ''No data found in sheet'',
                                      severity = ''error'' \<rparr>],
                          warnings = [] \<rparr> \<rparr>
   \<and> (parseTransactions rt (row # rows) = Inr [] \<longrightarrow>
        F8949_parse rt (row # rows) options =
          Inr \<lparr> formIds = [], formsData = [],
                validation = \<lparr> isValid = False,
                               errors = [\<lparr> field = ''data'',
                                           message = ''No valid transactions found'',
                                           severity = ''error'' \<rparr>],
                               warnings = [] \<rparr> \<rparr>)
   \<and> (\<forall>ts res. parseTransactions rt (row # rows) = Inr ts \<and> ts \<noteq> []
          \<and> F8949_parse rt (row # rows) options = Inr res \<longrightarrow> formIds res \<noteq> [])
   \<and> F1040_parse rt [] options =
     Inr \<lparr> formIds = [], formsData = [],
           validation = \<lparr> isValid = False,
                          errors = [\<lparr> field = ''sheet'', message = ''No data found in sheet'',
                                      severity = ''error'' \<rparr>],
                          warnings = [] \<rparr> \<rparr>
   \<and> (\<exists>fieldValues.
         F1040_parse rt (row # rows) options =
           Inr \<lparr> formIds = [''f1040''], formsData = [(''f1040'', fieldValues)],
                 validation = (if validate options then F1040_validate [(''f1040'', fieldValues)]
                               else \<lparr> isValid = True, errors = [], warnings = [] \<rparr>) \<rparr>)
   \<and> F1040_validate [(''f1040'', [])] =
       \<lparr> isValid = False,
         errors = [\<lparr> field = ''f1040'', message = ''No data found for Form 1040'',
                     severity = ''error'' \<rparr>],
         warnings = [] \<rparr>"
proof (intro conjI allI impI, goal_cases)
  case 1
  show ?case
    by (simp add: F8949_parse_def createParseResult_def createValidationResult_def)
next
  case 2
  then show ?case
    by (simp add: F8949_parse_def createParseResult_def createValidationResult_def)
next
  case (3 ts res)
  then have ts: "parseTransactions rt (row # rows) = Inr ts" "ts \<noteq> []"
    and res: "F8949_parse rt (row # rows) options = Inr res"
    by simp_all
  have "formIds res =
      keys (combineForms
              (chunkTransactions rt (filter isShortTerm ts) ST (getF8949Mapping (year options)))
              (chunkTransactions rt (filter (\<lambda>t. \<not> isShortTerm t) ts) LT
                 (getF8949Mapping (year options))))"
    using res unfolding F8949_parse_def Let_def ts(1) createParseResult_def
    by (simp add: ts(2)) (auto simp: ParseResult.defs)
  then show ?case
    using combineForms_nonempty [OF ts(2), of rt "getF8949Mapping (year options)"] by simp
next
  case 4
  show ?case
    by (simp add: F1040_parse_def createParseResult_def createValidationResult_def)
next
  case 5
  show ?case
    by (simp add: F1040_parse_def createParseResult_def createValidationResult_def Let_def)
next
  case 6
  show ?case
    by (simp add: F1040_validate_def createValidationResult_def get_prop_def keys_def)
qed

theorem empty_input_error_witness:
  "parseTransactions exampleRuntime [[(''Foo'', Str ''bar'')]] = Inr []
   \<and> F8949_parse exampleRuntime [[(''Foo'', Str ''bar'')]]
       \<lparr> year = 2025, validate = True, skipEmptyRows = True \<rparr> =
          Inr \<lparr> formIds = [], formsData = [],
                validation = \<lparr> isValid = False,
                               errors = [\<lparr> field = ''data'',
                                           message = ''No valid transactions found'',
                                           severity = ''error'' \<rparr>],
                               warnings = [] \<rparr> \<rparr>"
proof -
  have h: "parseTransactions exampleRuntime [[(''Foo'', Str ''bar'')]] = Inr []"
    by code_simp
  with empty_input_error [of exampleRuntime "\<lparr> year = 2025, validate = True, skipEmptyRows = True \<rparr>"
      "[(''Foo'', Str ''bar'')]" "[]"]
  show ?thesis by blast
qed

text \<open>
  A 1040 sheet whose only record has an empty variable and an empty value, parsed
  without validation: the result names the form \<open>f1040\<close>, holds an empty field map for it
  and is valid, with no error.
\<close>

theorem F1040_empty_but_valid:
  "F1040_parse exampleRuntime [[(''Variable'', Str ''''), (''Value'', Str '''')]]
     \<lparr> year = 2025, validate = False, skipEmptyRows = True \<rparr>
   = Inr \<lparr> formIds = [''f1040''], formsData = [(''f1040'', [])],
           validation = \<lparr> isValid = True, errors = [], warnings = [] \<rparr> \<rparr>"
  by code_simp

end
